theory Spec2Isabelle
  imports Main "HOL-Library.AList"
begin

section \<open>Python string operations used by the pipeline\<close>

text \<open>
  Strings are character lists. The definitions below follow the Python built-ins the
  scripts call: \<^verbatim>\<open>str.startswith\<close>, \<^verbatim>\<open>str.endswith\<close>, \<^verbatim>\<open>str.replace(old, '')\<close>,
  \<^verbatim>\<open>str.rfind\<close>, \<^verbatim>\<open>os.path.splitext\<close> (POSIX), \<^verbatim>\<open>str.split(sep)\<close> and \<^verbatim>\<open>sep.join\<close>.
  \<^verbatim>\<open>str.lower\<close> follows the Unicode case tables of the Python runtime; it is a
  parameter of the environment below.
\<close>

definition startswith :: "string \<Rightarrow> string \<Rightarrow> bool" where
  "startswith s pre = (take (length pre) s = pre)"

definition endswith :: "string \<Rightarrow> string \<Rightarrow> bool" where
  "endswith s suf = (length suf \<le> length s \<and> drop (length s - length suf) s = suf)"

text \<open>
  \<^verbatim>\<open>s.replace(old, '')\<close>: every non-overlapping occurrence of \<open>old\<close>, scanning from the
  left, is removed. Both call sites pass a non-empty \<open>old\<close>; for an empty \<open>old\<close> Python
  returns \<open>s\<close> as well when the replacement is empty.
\<close>

function str_remove :: "string \<Rightarrow> string \<Rightarrow> string" where
  "str_remove old [] = []"
| "str_remove old (c # cs) =
     (if old \<noteq> [] \<and> startswith (c # cs) old
      then str_remove old (drop (length old) (c # cs))
      else c # str_remove old cs)"
  by pat_completeness auto
termination
  by (relation "measure (\<lambda>(old, s). length s)") (auto simp: neq_Nil_conv)

text \<open>\<^verbatim>\<open>s.rfind(c)\<close>: the highest index of \<open>c\<close> in \<open>s\<close>, or \<open>-1\<close>.\<close>

definition rfind :: "char \<Rightarrow> string \<Rightarrow> int" where
  "rfind c s =
     (if c \<in> set s
      then int (length s) - 1 - int (length (takeWhile (\<lambda>x. x \<noteq> c) (rev s)))
      else - 1)"

text \<open>
  \<^verbatim>\<open>os.path.splitext\<close> on POSIX (\<^verbatim>\<open>genericpath._splitext\<close> with separator \<^verbatim>\<open>/\<close> and
  extension separator \<^verbatim>\<open>.\<close>): the path is cut at its last dot when that dot lies after
  the last separator and some character between the separator and the dot is not a
  dot (the library's loop over \<^verbatim>\<open>filenameIndex\<close> returns at the first such character);
  otherwise the extension is empty.
\<close>

definition splitext :: "string \<Rightarrow> string \<times> string" where
  "splitext p =
     (let sepIndex = rfind CHR ''/'' p;
          dotIndex = rfind CHR ''.'' p
      in if dotIndex > sepIndex \<and>
            list_ex (\<lambda>c. c \<noteq> CHR ''.'') (drop (nat (sepIndex + 1)) (take (nat dotIndex) p))
         then (take (nat dotIndex) p, drop (nat dotIndex) p)
         else (p, []))"

text \<open>\<^verbatim>\<open>s.split(sep)\<close> with an explicit one-character separator; never the empty list.\<close>

fun str_split :: "char \<Rightarrow> string \<Rightarrow> string list" where
  "str_split sep [] = [[]]"
| "str_split sep (c # cs) =
     (if c = sep then [] # str_split sep cs
      else (case str_split sep cs of
              [] \<Rightarrow> [[c]]
            | t # ts \<Rightarrow> (c # t) # ts))"

text \<open>\<^verbatim>\<open>sep.join(parts)\<close>.\<close>

fun str_join :: "string \<Rightarrow> string list \<Rightarrow> string" where
  "str_join sep [] = []"
| "str_join sep [x] = x"
| "str_join sep (x # y # ys) = x @ sep @ str_join sep (y # ys)"

section \<open>Table name derivation (load\_partitions\_to\_pg.py)\<close>

text \<open>
  \<^verbatim>\<open>
  def extract_table_name_from_filename(file_name):
      table, _ = os.path.splitext(file_name)
      table_name_parts = table.split('_')
      table_name = "_".join(table_name_parts[:2])
      return table_name
  \<close>
\<close>

definition extract_table_name_from_filename :: "string \<Rightarrow> string" where
  "extract_table_name_from_filename file_name =
     (let table = fst (splitext file_name);
          table_name_parts = str_split CHR ''_'' table;
          table_name = str_join ''_'' (take 2 table_name_parts)
      in table_name)"

section \<open>The external world\<close>

text \<open>
  The scripts talk to three services: the BigQuery catalog and query engine, one Cloud
  Storage bucket, and PostgreSQL through \<^verbatim>\<open>pandas.DataFrame.to_sql\<close>. Every \<^verbatim>\<open>except\<close>
  clause of the source distinguishes at most these classes of exception. The class names
  the clauses mention resolve in the installed client library, those of
  \<^verbatim>\<open>get_partitioning_field\<close> apart (see there).
\<close>

datatype exn = NotFound | Forbidden | GoogleAPIError | OtherException

text \<open>A pandas data frame: its column labels and its rows of cells.\<close>

record dataframe =
  columns :: "string list"
  rows :: "string list list"

text \<open>\<^verbatim>\<open>df.empty\<close>: some axis has length zero.\<close>

definition df_empty :: "dataframe \<Rightarrow> bool" where
  "df_empty df = (columns df = [] \<or> rows df = [])"

text \<open>
  What can be handed to \<^verbatim>\<open>df.to_sql\<close> as \<^verbatim>\<open>con\<close>. pandas drives a SQLAlchemy
  connectable (and, as legacy, a \<^verbatim>\<open>sqlite3\<close> connection); any other DBAPI connection is
  driven as if it were \<^verbatim>\<open>sqlite3\<close>, and the first statement pandas then sends, a query
  of \<^verbatim>\<open>sqlite_master\<close>, is rejected by PostgreSQL. The repository opens its connection
  with \<^verbatim>\<open>psycopg2.connect\<close> (pg\_conn.py, \<^verbatim>\<open>initialize_postgresql_connection\<close>) and passes
  that object on.
\<close>

datatype connection = Psycopg2_connection | Sqlalchemy_connectable

definition pandas_accepts :: "connection \<Rightarrow> bool" where
  "pandas_accepts con = (case con of Psycopg2_connection \<Rightarrow> False | Sqlalchemy_connectable \<Rightarrow> True)"

text \<open>\<^verbatim>\<open>pg_client.get_postgresql_connection()\<close>: the object \<^verbatim>\<open>psycopg2.connect\<close> returned.\<close>

definition pg_connection :: connection where
  "pg_connection = Psycopg2_connection"

datatype if_exists = Replace | Append

text \<open>The keyword arguments of one \<^verbatim>\<open>df.to_sql(...)\<close> call, with the frame itself.\<close>

record to_sql_call =
  sql_name :: string
  sql_schema :: string
  sql_chunksize :: nat
  sql_index :: bool
  sql_if_exists :: if_exists
  sql_frame :: dataframe

text \<open>The storage and database calls a run issues, in the order it issues them.\<close>

datatype call =
    ListBlobs string
  | Download string
  | Upload string string
  | CopyBlob string string
  | DeleteBlob string
  | ToSql to_sql_call

text \<open>
  The mutable part of the world: the objects of the configured bucket (name and
  content, in listing order), the \<^verbatim>\<open>to_sql\<close> calls PostgreSQL has completed, how often
  the wall clock has been read, and the calls issued so far.
\<close>

record world =
  blobs :: "(string \<times> string) list"
  pg_writes :: "to_sql_call list"
  clock_reads :: nat
  trace :: "call list"

text \<open>
  \<^verbatim>\<open>table.time_partitioning\<close> and \<^verbatim>\<open>table.range_partitioning\<close>: \<open>None\<close> when the table
  has no such partitioning, otherwise the object's \<^verbatim>\<open>field\<close> attribute (itself \<open>None\<close>
  for ingestion-time partitioning).
\<close>

record table_meta =
  time_partitioning :: "string option option"
  range_partitioning :: "string option option"

text \<open>
  Everything the run does not control, as one record.
  \<^item> \<open>load_config_raises\<close>, \<open>bq_client_raises\<close>, \<open>gcs_client_raises\<close>: whether
    \<^verbatim>\<open>get_gcp_clients()\<close>, \<^verbatim>\<open>get_bigquery_client()\<close>, \<^verbatim>\<open>get_gcs_client()\<close> raise;
    \<open>pg_connect_raises\<close>: whether obtaining the PostgreSQL connection raises.
  \<^item> \<open>project_id\<close>, \<open>dataset_id\<close>, \<open>bucket_name\<close>: the configuration values, \<open>None\<close> when
    the YAML value is null (a missing key raises instead and ends in the same
    \<^verbatim>\<open>except\<close> clause as a failing client). The world holds the one configured bucket,
    so the functions below do not take the bucket name.
  \<^item> \<open>yesterday_at k\<close>: what \<^verbatim>\<open>get_yesterday_date\<close> renders at the \<open>k\<close>-th reading of the
    clock, \<^verbatim>\<open>(datetime.now() - timedelta(days=1)).strftime('%Y-%m-%d')\<close>.
  \<^item> \<open>list_tables ds\<close>, \<open>get_table ds t\<close>: the catalog's answers for a dataset and a table.
  \<^item> \<open>partitions_query fds t\<close>: the rows of the \<^verbatim>\<open>MAX(partition_id)\<close> query, as the list of
    their \<^verbatim>\<open>max_partition_id\<close> values.
  \<^item> \<open>select_query fds t field y\<close>: the data frame of the partition query
    (\<^verbatim>\<open>query\<close>, \<^verbatim>\<open>result\<close> and \<^verbatim>\<open>to_dataframe\<close> together), or the exception one of them raised.
  \<^item> \<open>to_csv\<close>, \<open>read_csv\<close>: \<^verbatim>\<open>df.to_csv(index=False)\<close> and \<^verbatim>\<open>pd.read_csv\<close>.
  \<^item> \<open>str_lower\<close>: \<^verbatim>\<open>str.lower\<close>, on every string, as the runtime's Unicode tables give it.
  \<^item> \<open>list_blobs_raises\<close>, \<open>upload_raises\<close>, \<open>download_raises\<close>, \<open>copy_raises\<close>,
    \<open>delete_raises\<close>: whether the storage call on these object names raises for a
    reason of the service's; a call on a missing object raises in any case.
  \<^item> \<open>to_sql_raises db c\<close>: whether the call \<open>c\<close>, made on a connection pandas accepts,
    raises when the database has completed the calls \<open>db\<close>.
  An answer depends on the arguments of the call only: within one run the same call on
  the same object meets the same service.
\<close>

record env =
  load_config_raises :: bool
  bq_client_raises :: bool
  gcs_client_raises :: bool
  pg_connect_raises :: bool
  project_id :: "string option"
  dataset_id :: "string option"
  bucket_name :: "string option"
  yesterday_at :: "nat \<Rightarrow> string"
  list_tables :: "string \<Rightarrow> exn + string list"
  get_table :: "string \<Rightarrow> string \<Rightarrow> exn + table_meta"
  partitions_query :: "string \<Rightarrow> string \<Rightarrow> exn + string option list"
  select_query :: "string \<Rightarrow> string \<Rightarrow> string \<Rightarrow> string \<Rightarrow> exn + dataframe"
  to_csv :: "dataframe \<Rightarrow> string"
  read_csv :: "string \<Rightarrow> exn + dataframe"
  str_lower :: "string \<Rightarrow> string"
  list_blobs_raises :: "string \<Rightarrow> bool"
  upload_raises :: "string \<Rightarrow> bool"
  download_raises :: "string \<Rightarrow> bool"
  copy_raises :: "string \<Rightarrow> string \<Rightarrow> bool"
  delete_raises :: "string \<Rightarrow> bool"
  to_sql_raises :: "to_sql_call list \<Rightarrow> to_sql_call \<Rightarrow> bool"

text \<open>Python truthiness of a value that is \<^verbatim>\<open>None\<close> or a string.\<close>

definition truthy :: "string option \<Rightarrow> bool" where
  "truthy v = (case v of None \<Rightarrow> False | Some s \<Rightarrow> s \<noteq> [])"

definition record_call :: "call \<Rightarrow> world \<Rightarrow> world" where
  "record_call c w = w\<lparr>trace := trace w @ [c]\<rparr>"

subsection \<open>Cloud Storage primitives\<close>

text \<open>\<^verbatim>\<open>bucket.list_blobs(prefix=...)\<close>: the names that start with the prefix.\<close>

definition list_blobs :: "env \<Rightarrow> world \<Rightarrow> string \<Rightarrow> (exn + string list) \<times> world" where
  "list_blobs env w pre =
     (if list_blobs_raises env pre then Inl GoogleAPIError
      else Inr (filter (\<lambda>n. startswith n pre) (map fst (blobs w))),
      record_call (ListBlobs pre) w)"

text \<open>\<^verbatim>\<open>blob.download_to_file(buffer)\<close>.\<close>

definition download_to_file :: "env \<Rightarrow> world \<Rightarrow> string \<Rightarrow> (exn + string) \<times> world" where
  "download_to_file env w n =
     (if download_raises env n then Inl GoogleAPIError
      else (case map_of (blobs w) n of None \<Rightarrow> Inl NotFound | Some d \<Rightarrow> Inr d),
      record_call (Download n) w)"

text \<open>\<^verbatim>\<open>blob.upload_from_string(data)\<close>: creates the object or overwrites it.\<close>

definition upload_from_string :: "env \<Rightarrow> world \<Rightarrow> string \<Rightarrow> string \<Rightarrow> exn option \<times> world" where
  "upload_from_string env w n d =
     (if upload_raises env n then (Some GoogleAPIError, record_call (Upload n d) w)
      else (None, (record_call (Upload n d) w)\<lparr>blobs := AList.update n d (blobs w)\<rparr>))"

text \<open>\<^verbatim>\<open>bucket.copy_blob(source_blob, bucket, destination_blob_name)\<close>.\<close>

definition copy_blob :: "env \<Rightarrow> world \<Rightarrow> string \<Rightarrow> string \<Rightarrow> exn option \<times> world" where
  "copy_blob env w src dst =
     (if copy_raises env src dst then (Some GoogleAPIError, record_call (CopyBlob src dst) w)
      else (case map_of (blobs w) src of
              None \<Rightarrow> (Some NotFound, record_call (CopyBlob src dst) w)
            | Some d \<Rightarrow>
                (None, (record_call (CopyBlob src dst) w)\<lparr>blobs := AList.update dst d (blobs w)\<rparr>)))"

text \<open>\<^verbatim>\<open>blob.delete()\<close>.\<close>

definition delete_blob :: "env \<Rightarrow> world \<Rightarrow> string \<Rightarrow> exn option \<times> world" where
  "delete_blob env w n =
     (if delete_raises env n then (Some GoogleAPIError, record_call (DeleteBlob n) w)
      else (case map_of (blobs w) n of
              None \<Rightarrow> (Some NotFound, record_call (DeleteBlob n) w)
            | Some d \<Rightarrow>
                (None, (record_call (DeleteBlob n) w)\<lparr>blobs := AList.delete n (blobs w)\<rparr>)))"

text \<open>
  \<^verbatim>\<open>df.to_sql(..., con=con, ...)\<close>: it raises on a connection pandas does not accept; on
  one it accepts, a call that does not raise is added to what the database holds.
\<close>

definition to_sql :: "env \<Rightarrow> world \<Rightarrow> connection \<Rightarrow> to_sql_call \<Rightarrow> exn option \<times> world" where
  "to_sql env w con c =
     (if \<not> pandas_accepts con \<or> to_sql_raises env (pg_writes w) c
      then (Some OtherException, record_call (ToSql c) w)
      else (None, (record_call (ToSql c) w)\<lparr>pg_writes := pg_writes w @ [c]\<rparr>))"

section \<open>The staging zone layout\<close>

text \<open>
  The two object-name prefixes the scripts write as literals: \<^verbatim>\<open>'processing_zone/'\<close>
  for staged files and \<^verbatim>\<open>'unprocess_zone/'\<close> for files whose load failed.
\<close>

definition processing_zone :: string where
  "processing_zone = ''processing_zone/''"

definition unprocess_zone :: string where
  "unprocess_zone = ''unprocess_zone/''"

section \<open>The loader (load\_partitions\_to\_pg.py)\<close>

text \<open>
  \<^verbatim>\<open>
  def get_gcs_files_in_processing_zone(bucket_name, storage_client):
      try:
          bucket = storage_client.bucket(bucket_name)
          blobs = bucket.list_blobs(prefix='processing_zone/')
          csv_files = [blob.name.replace('processing_zone/', '') for blob in blobs
                      if blob.name.endswith('.csv') and blob.name.startswith('processing_zone/')]
          return csv_files
      except Exception as e:
          return []
  \<close>
\<close>

definition get_gcs_files_in_processing_zone :: "env \<Rightarrow> world \<Rightarrow> string list \<times> world" where
  "get_gcs_files_in_processing_zone env w =
     (case list_blobs env w processing_zone of
        (Inl e, w') \<Rightarrow> ([], w')
      | (Inr names, w') \<Rightarrow>
          ([str_remove processing_zone n.
              n \<leftarrow> names, endswith n ''.csv'' \<and> startswith n processing_zone], w'))"

text \<open>
  \<^verbatim>\<open>
  def move_file_in_gcs(bucket_name, storage_client, source_blob_name, destination_blob_name):
      try:
          ...
          bucket.copy_blob(source_blob, bucket, destination_blob_name)
          source_blob.delete()
          return True
      except Exception as e:
          return False
  \<close>
\<close>

definition move_file_in_gcs :: "env \<Rightarrow> world \<Rightarrow> string \<Rightarrow> string \<Rightarrow> bool \<times> world" where
  "move_file_in_gcs env w source_blob_name destination_blob_name =
     (case copy_blob env w source_blob_name destination_blob_name of
        (Some e, w1) \<Rightarrow> (False, w1)
      | (None, w1) \<Rightarrow>
          (case delete_blob env w1 source_blob_name of
             (Some e, w2) \<Rightarrow> (False, w2)
           | (None, w2) \<Rightarrow> (True, w2)))"

text \<open>
  \<^verbatim>\<open>
  def delete_file_from_gcs(bucket_name, storage_client, blob_name):
      try:
          ...
          blob.delete()
          return True
      except Exception as e:
          return False
  \<close>
\<close>

definition delete_file_from_gcs :: "env \<Rightarrow> world \<Rightarrow> string \<Rightarrow> bool \<times> world" where
  "delete_file_from_gcs env w blob_name =
     (case delete_blob env w blob_name of
        (Some e, w1) \<Rightarrow> (False, w1)
      | (None, w1) \<Rightarrow> (True, w1))"

text \<open>
  \<^verbatim>\<open>
  def load_partition_to_postgresql(bucket_name, storage_client, file_name, pg_connection, table_name):
      try:
          blob = bucket.blob(f'processing_zone/{file_name}')
          buffer = BytesIO()
          blob.download_to_file(buffer)
          df = pd.read_csv(buffer)
          df.columns = [c.lower() for c in df.columns]
          if_exists = 'replace' if table_name == 'partitioned_table3' else 'append'
          df.to_sql(name=table_name, con=pg_connection, schema='public',
                    chunksize=5000, index=False, if_exists=if_exists)
          return True
      except Exception as e:
          return False
  \<close>
\<close>

definition load_partition_to_postgresql ::
  "env \<Rightarrow> world \<Rightarrow> string \<Rightarrow> string \<Rightarrow> bool \<times> world" where
  "load_partition_to_postgresql env w file_name table_name =
     (case download_to_file env w (processing_zone @ file_name) of
        (Inl e, w1) \<Rightarrow> (False, w1)
      | (Inr buffer, w1) \<Rightarrow>
          (case read_csv env buffer of
             Inl e \<Rightarrow> (False, w1)
           | Inr df \<Rightarrow>
               (let df' = df\<lparr>columns := [str_lower env c. c \<leftarrow> columns df]\<rparr>;
                    if_exists = (if table_name = ''partitioned_table3'' then Replace else Append)
                in (case to_sql env w1 pg_connection
                           \<lparr>sql_name = table_name, sql_schema = ''public'',
                            sql_chunksize = 5000, sql_index = False,
                            sql_if_exists = if_exists, sql_frame = df'\<rparr> of
                      (Some e, w2) \<Rightarrow> (False, w2)
                    | (None, w2) \<Rightarrow> (True, w2)))))"

text \<open>
  The \<^verbatim>\<open>for file_name in gcs_files\<close> loop of \<^verbatim>\<open>load_all_partitions_to_postgresql\<close>, with
  the two result lists as accumulators:
  \<^verbatim>\<open>
      table_name = extract_table_name_from_filename(file_name)
      success = load_partition_to_postgresql(...)
      if success:
          delete_success = delete_file_from_gcs(..., blob_name=f'processing_zone/{file_name}')
          if delete_success:
              successful_files.append(file_name)
          else:
              failed_files.append(file_name)
      else:
          move_success = move_file_in_gcs(...,
              source_blob_name=f'processing_zone/{file_name}',
              destination_blob_name=f'unprocess_zone/{file_name}')
          if move_success:
              failed_files.append(file_name)
  \<close>
\<close>

fun load_files ::
  "env \<Rightarrow> world \<Rightarrow> string list \<Rightarrow> string list \<Rightarrow> string list \<Rightarrow>
   (string list \<times> string list) \<times> world" where
  "load_files env w [] successful_files failed_files = ((successful_files, failed_files), w)"
| "load_files env w (file_name # rest) successful_files failed_files =
     (let table_name = extract_table_name_from_filename file_name;
          (success, w1) = load_partition_to_postgresql env w file_name table_name
      in if success then
           (let (delete_success, w2) =
                  delete_file_from_gcs env w1 (processing_zone @ file_name)
            in if delete_success
               then load_files env w2 rest (successful_files @ [file_name]) failed_files
               else load_files env w2 rest successful_files (failed_files @ [file_name]))
         else
           (let (move_success, w2) =
                  move_file_in_gcs env w1 (processing_zone @ file_name)
                                          (unprocess_zone @ file_name)
            in if move_success
               then load_files env w2 rest successful_files (failed_files @ [file_name])
               else load_files env w2 rest successful_files failed_files))"

text \<open>
  \<^verbatim>\<open>load_all_partitions_to_postgresql\<close>: the clients, the connection and the bucket name
  are obtained first; a failure of any of them, an unset bucket name and an empty
  listing all return two empty lists.
\<close>

definition load_all_partitions_to_postgresql ::
  "env \<Rightarrow> world \<Rightarrow> (string list \<times> string list) \<times> world" where
  "load_all_partitions_to_postgresql env w =
     (if load_config_raises env \<or> gcs_client_raises env then (([], []), w)
      else if pg_connect_raises env then (([], []), w)
      else if \<not> truthy (bucket_name env) then (([], []), w)
      else (let (gcs_files, w1) = get_gcs_files_in_processing_zone env w
            in if gcs_files = [] then (([], []), w1)
               else load_files env w1 gcs_files [] []))"

text \<open>\<^verbatim>\<open>main\<close> of the loader script, imported by the orchestrator as \<^verbatim>\<open>load_partitions\<close>.\<close>

definition load_partitions :: "env \<Rightarrow> world \<Rightarrow> (string list \<times> string list) \<times> world" where
  "load_partitions env w = load_all_partitions_to_postgresql env w"

section \<open>The exporter (export\_bq\_partitions\_to\_gcs.py)\<close>

text \<open>
  The inner loop of \<^verbatim>\<open>list_partitioned_tables\<close>: \<^verbatim>\<open>NotFound\<close> and \<^verbatim>\<open>Forbidden\<close> from
  \<^verbatim>\<open>get_table\<close> skip the table, any other exception leaves the loop.
\<close>

fun partitioned_tables_loop ::
  "env \<Rightarrow> string \<Rightarrow> string list \<Rightarrow> string list \<Rightarrow> exn + string list" where
  "partitioned_tables_loop env ds [] partitioned_tables = Inr partitioned_tables"
| "partitioned_tables_loop env ds (table # tables) partitioned_tables =
     (case get_table env ds table of
        Inl NotFound \<Rightarrow> partitioned_tables_loop env ds tables partitioned_tables
      | Inl Forbidden \<Rightarrow> partitioned_tables_loop env ds tables partitioned_tables
      | Inl e \<Rightarrow> Inl e
      | Inr table_ref \<Rightarrow>
          (if time_partitioning table_ref \<noteq> None \<or> range_partitioning table_ref \<noteq> None
           then partitioned_tables_loop env ds tables (partitioned_tables @ [table])
           else partitioned_tables_loop env ds tables partitioned_tables))"

text \<open>
  The outer \<^verbatim>\<open>try\<close> of \<^verbatim>\<open>list_partitioned_tables\<close> turns \<^verbatim>\<open>NotFound\<close>, \<^verbatim>\<open>Forbidden\<close> and
  \<^verbatim>\<open>GoogleAPIError\<close> into the empty list; any other exception reaches the caller.
\<close>

definition list_partitioned_tables :: "env \<Rightarrow> string \<Rightarrow> exn + string list" where
  "list_partitioned_tables env ds =
     (case (case list_tables env ds of
              Inl e \<Rightarrow> Inl e
            | Inr tables \<Rightarrow> partitioned_tables_loop env ds tables []) of
        Inl NotFound \<Rightarrow> Inr []
      | Inl Forbidden \<Rightarrow> Inr []
      | Inl GoogleAPIError \<Rightarrow> Inr []
      | Inl OtherException \<Rightarrow> Inl OtherException
      | Inr partitioned_tables \<Rightarrow> Inr partitioned_tables)"

text \<open>
  \<^verbatim>\<open>
  def check_for_yesterdays_partition(bq_client, table, full_dataset_id, yesterday):
      new_partition = yesterday.replace('-', '')
      query = f"""SELECT MAX(partition_id) as max_partition_id
                  FROM `{full_dataset_id}.INFORMATION_SCHEMA.PARTITIONS`
                  WHERE table_name = '{table}'"""
      try:
          query_job = bq_client.query(query)
          result = query_job.result()
          partition_id = next(result, None).max_partition_id if result.total_rows > 0 else None
          if partition_id == new_partition:
              return partition_id
          else:
              return None
      except bigquery.exceptions.BigQueryError as e: ...
      except Exception as e: ...
      return None
  \<close>
  The query result is the list of its rows' \<^verbatim>\<open>max_partition_id\<close> values (\<open>None\<close> for NULL).
\<close>

definition check_for_yesterdays_partition ::
  "env \<Rightarrow> string \<Rightarrow> string \<Rightarrow> string \<Rightarrow> string option" where
  "check_for_yesterdays_partition env table full_dataset_id yesterday =
     (let new_partition = str_remove ''-'' yesterday
      in (case partitions_query env full_dataset_id table of
            Inl e \<Rightarrow> None
          | Inr result \<Rightarrow>
              (let partition_id = (case result of [] \<Rightarrow> None | row # _ \<Rightarrow> row)
               in if partition_id = Some new_partition then partition_id else None)))"

text \<open>\<^verbatim>\<open>get_yesterday_date\<close>: one reading of the wall clock.\<close>

definition get_yesterday_date :: "env \<Rightarrow> world \<Rightarrow> string \<times> world" where
  "get_yesterday_date env w =
     (yesterday_at env (clock_reads w), w\<lparr>clock_reads := Suc (clock_reads w)\<rparr>)"

text \<open>
  \<^verbatim>\<open>
  def get_partitioning_field(client, table, dataset_id):
      table_id = f'{dataset_id}.{table}'
      try:
          bq_table = client.get_table(table_id)
          if bq_table.time_partitioning:
              return bq_table.time_partitioning.field
          elif bq_table.range_partitioning:
              return bq_table.range_partitioning.field
          else:
              return None
      except bigquery.NotFound as e: ...
      except bigquery.Forbidden as e: ...
      except bigquery.GoogleCloudError as e: ...
      except Exception as e: ...
  \<close>
  The module \<^verbatim>\<open>google.cloud.bigquery\<close> has no attribute \<^verbatim>\<open>NotFound\<close>: when \<^verbatim>\<open>get_table\<close>
  raises, matching the first \<^verbatim>\<open>except\<close> clause raises \<^verbatim>\<open>AttributeError\<close>, and that
  exception leaves the function.
\<close>

definition get_partitioning_field :: "env \<Rightarrow> string \<Rightarrow> string \<Rightarrow> exn + string option" where
  "get_partitioning_field env table ds =
     (case get_table env ds table of
        Inl e \<Rightarrow> Inl OtherException
      | Inr bq_table \<Rightarrow>
          Inr (case time_partitioning bq_table of
                 Some field \<Rightarrow> field
               | None \<Rightarrow>
                   (case range_partitioning bq_table of
                      Some field \<Rightarrow> field
                    | None \<Rightarrow> None)))"

text \<open>
  \<^verbatim>\<open>
  def export_partition_to_csv(bucket_name, storage_client, bq_client, dataset_id, table,
                              partition_field, partition_id, yesterday, destination_uri, ...):
      blob_name = f'processing_zone/{table}_{partition_id}.csv'
      query = f"""SELECT * FROM `{dataset_id}.{table}`
                  WHERE `{partition_field}` = '{yesterday}'"""
      try:
          results = bq_client.query(query).result()
          df = results.to_dataframe()
          if df.empty:
              return False
          blob = bucket.blob(blob_name)
          csv_data = df.to_csv(index=False)
          blob.upload_from_string(csv_data, content_type='text/csv')
          return True
      except GoogleAPIError as e:
          return False
      except Exception as e:
          return False
  \<close>
  \<^verbatim>\<open>destination_uri\<close> and \<^verbatim>\<open>location\<close> are not used by the body.
\<close>

definition export_partition_to_csv ::
  "env \<Rightarrow> world \<Rightarrow> string \<Rightarrow> string \<Rightarrow> string \<Rightarrow> string \<Rightarrow> string \<Rightarrow> bool \<times> world" where
  "export_partition_to_csv env w ds table partition_field partition_id yesterday =
     (let blob_name = processing_zone @ table @ ''_'' @ partition_id @ ''.csv''
      in (case select_query env ds table partition_field yesterday of
            Inl e \<Rightarrow> (False, w)
          | Inr df \<Rightarrow>
              (if df_empty df then (False, w)
               else (case upload_from_string env w blob_name (to_csv env df) of
                       (Some e, w1) \<Rightarrow> (False, w1)
                     | (None, w1) \<Rightarrow> (True, w1)))))"

text \<open>
  The \<^verbatim>\<open>for table in partitioned_tables\<close> loop of \<^verbatim>\<open>export_all_new_partitions_to_gcs\<close>:
  \<^verbatim>\<open>
      partition_exists = check_for_yesterdays_partition(bq_client, table, full_dataset_id, yesterday)
      if partition_exists:
          partition_field = get_partitioning_field(bq_client, table, dataset_id)
          if partition_field:
              success = export_partition_to_csv(...)
              if success:
                  exported_tables.append(table)
              else:
                  failed_tables.append(table)
          else:
              failed_tables.append(table)
  \<close>
  An exception of \<^verbatim>\<open>get_partitioning_field\<close> leaves the loop. The list \<^verbatim>\<open>failed_tables\<close>
  of the source is never read and is left out.
\<close>

fun export_tables ::
  "env \<Rightarrow> world \<Rightarrow> string \<Rightarrow> string \<Rightarrow> string \<Rightarrow> string \<Rightarrow> string list \<Rightarrow> string list \<Rightarrow>
   (exn + string list) \<times> world" where
  "export_tables env w full_dataset_id ds yesterday partition_id [] exported_tables =
     (Inr exported_tables, w)"
| "export_tables env w full_dataset_id ds yesterday partition_id (table # tables) exported_tables =
     (let partition_exists = check_for_yesterdays_partition env table full_dataset_id yesterday
      in if truthy partition_exists then
           (case get_partitioning_field env table ds of
              Inl e \<Rightarrow> (Inl e, w)
            | Inr partition_field \<Rightarrow>
                (if truthy partition_field then
                   (let (success, w1) =
                          export_partition_to_csv env w full_dataset_id table (the partition_field)
                            partition_id yesterday
                    in if success
                       then export_tables env w1 full_dataset_id ds yesterday partition_id tables
                              (exported_tables @ [table])
                       else export_tables env w1 full_dataset_id ds yesterday partition_id tables
                              exported_tables)
                 else
                   export_tables env w full_dataset_id ds yesterday partition_id tables
                     exported_tables))
         else export_tables env w full_dataset_id ds yesterday partition_id tables exported_tables)"

text \<open>
  \<^verbatim>\<open>export_all_new_partitions_to_gcs\<close>: clients and configuration, then
  \<^verbatim>\<open>yesterday = get_yesterday_date()\<close> and \<^verbatim>\<open>partition_id = yesterday.replace('-', '')\<close>,
  then the listing and the loop. Every exception, also one that leaves the loop after
  some files were staged, returns the empty list.
\<close>

definition export_all_new_partitions_to_gcs :: "env \<Rightarrow> world \<Rightarrow> string list \<times> world" where
  "export_all_new_partitions_to_gcs env w =
     (if load_config_raises env \<or> bq_client_raises env \<or> gcs_client_raises env then ([], w)
      else if \<not> truthy (project_id env) \<or> \<not> truthy (dataset_id env) \<or> \<not> truthy (bucket_name env)
      then ([], w)
      else (let full_dataset_id = the (project_id env) @ ''.'' @ the (dataset_id env);
                (yesterday, w1) = get_yesterday_date env w;
                partition_id = str_remove ''-'' yesterday
            in (case list_partitioned_tables env (the (dataset_id env)) of
                  Inl e \<Rightarrow> ([], w1)
                | Inr partitioned_tables \<Rightarrow>
                    (if partitioned_tables = [] then ([], w1)
                     else (case export_tables env w1 full_dataset_id (the (dataset_id env))
                                  yesterday partition_id partitioned_tables [] of
                             (Inl e, w2) \<Rightarrow> ([], w2)
                           | (Inr exported_tables, w2) \<Rightarrow> (exported_tables, w2))))))"

text \<open>
  \<^verbatim>\<open>main\<close> of the exporter script, imported by the orchestrator as \<^verbatim>\<open>export_partitions\<close>:
  it reads the clock and checks every partitioned table itself, and calls
  \<^verbatim>\<open>export_all_new_partitions_to_gcs\<close> when some table passed the check.
\<close>

definition export_partitions :: "env \<Rightarrow> world \<Rightarrow> string list \<times> world" where
  "export_partitions env w =
     (if load_config_raises env \<or> bq_client_raises env then ([], w)
      else if \<not> truthy (project_id env) \<or> \<not> truthy (dataset_id env) then ([], w)
      else (let full_dataset_id = the (project_id env) @ ''.'' @ the (dataset_id env);
                (yesterday, w1) = get_yesterday_date env w
            in (case list_partitioned_tables env (the (dataset_id env)) of
                  Inl e \<Rightarrow> ([], w1)
                | Inr partitioned_tables \<Rightarrow>
                    (if partitioned_tables = [] then ([], w1)
                     else (let tables_with_yesterday_partition =
                                 [table. table \<leftarrow> partitioned_tables,
                                    truthy (check_for_yesterdays_partition env table
                                              full_dataset_id yesterday)]
                           in if tables_with_yesterday_partition \<noteq> []
                              then export_all_new_partitions_to_gcs env w1
                              else (tables_with_yesterday_partition, w1))))))"

section \<open>The orchestrator (main.py)\<close>

text \<open>
  \<^verbatim>\<open>
  exported_tables = export_partitions()
  if not exported_tables:
      print("No partitions to export")
      return
  successful_files, failed_files = load_partitions()
  print(f"Completed: {len(successful_files)} loaded, {len(failed_files)} failed")
  \<close>
  The run's outcome is what it prints: either that nothing was exported, or the load
  step's two lists (printed as their lengths).
\<close>

datatype outcome = No_partitions_to_export | Completed "string list" "string list"

definition main :: "env \<Rightarrow> world \<Rightarrow> outcome \<times> world" where
  "main env w =
     (let (exported_tables, w1) = export_partitions env w
      in if exported_tables = [] then (No_partitions_to_export, w1)
         else (let ((successful_files, failed_files), w2) = load_partitions env w1
               in (Completed successful_files failed_files, w2)))"

section \<open>Auxiliary definitions for the proofs and the examples\<close>

text \<open>
  One iteration of the loop of \<^verbatim>\<open>load_all_partitions_to_postgresql\<close>: \<open>Some True\<close> when
  the file name is appended to \<^verbatim>\<open>successful_files\<close>, \<open>Some False\<close> when it is appended to
  \<^verbatim>\<open>failed_files\<close>, \<open>None\<close> when it is appended to neither.
\<close>

definition load_step :: "env \<Rightarrow> world \<Rightarrow> string \<Rightarrow> bool option \<times> world" where
  "load_step env w file_name =
     (let table_name = extract_table_name_from_filename file_name;
          (success, w1) = load_partition_to_postgresql env w file_name table_name
      in if success then
           (let (delete_success, w2) =
                  delete_file_from_gcs env w1 (processing_zone @ file_name)
            in if delete_success then (Some True, w2) else (Some False, w2))
         else
           (let (move_success, w2) =
                  move_file_in_gcs env w1 (processing_zone @ file_name)
                                          (unprocess_zone @ file_name)
            in if move_success then (Some False, w2) else (None, w2)))"

text \<open>The download calls of a trace: one per file a load pass attempts.\<close>

fun downloads :: "call list \<Rightarrow> string list" where
  "downloads [] = []"
| "downloads (Download n # cs) = n # downloads cs"
| "downloads (c # cs) = downloads cs"

text \<open>
  A small comma-separated rendering and its reader, for the examples only: one line per
  row, the header first.
\<close>

definition simple_to_csv :: "dataframe \<Rightarrow> string" where
  "simple_to_csv df = str_join [CHR 0x0A] (map (str_join '','') (columns df # rows df))"

definition simple_read_csv :: "string \<Rightarrow> exn + dataframe" where
  "simple_read_csv s =
     (case map (str_split CHR '','') (str_split (CHR 0x0A) s) of
        [] \<Rightarrow> Inl OtherException
      | header # body \<Rightarrow> Inr \<lparr>columns = header, rows = body\<rparr>)"

text \<open>
  For the examples: \<^verbatim>\<open>str.lower\<close> as it acts on strings of ASCII characters (the 26
  capitals are mapped, every other character is kept).
\<close>

definition ascii_lower_char :: "char \<Rightarrow> char" where
  "ascii_lower_char c =
     (case map_of (zip ''ABCDEFGHIJKLMNOPQRSTUVWXYZ'' ''abcdefghijklmnopqrstuvwxyz'') c of
        None \<Rightarrow> c
      | Some l \<Rightarrow> l)"

definition ascii_lower :: "string \<Rightarrow> string" where
  "ascii_lower s = map ascii_lower_char s"

definition demo_frame :: dataframe where
  "demo_frame = \<lparr>columns = [''User_ID'', ''Day''], rows = [[''7'', ''2024-01-14'']]\<rparr>"

text \<open>
  An environment in which no service raises: the dataset holds the tables \<open>events\<close> and
  \<open>user_events\<close>, both partitioned by day, both with yesterday's partition.
\<close>

definition demo_env :: env where
  "demo_env =
     \<lparr>load_config_raises = False, bq_client_raises = False, gcs_client_raises = False,
      pg_connect_raises = False,
      project_id = Some ''proj'', dataset_id = Some ''ds'', bucket_name = Some ''bucket'',
      yesterday_at = (\<lambda>k. ''2024-01-14''),
      list_tables = (\<lambda>ds. Inr [''events'', ''user_events'']),
      get_table = (\<lambda>ds t. Inr \<lparr>time_partitioning = Some (Some ''day''),
                                 range_partitioning = None\<rparr>),
      partitions_query = (\<lambda>ds t. Inr [Some ''20240114'']),
      select_query = (\<lambda>ds t f y. Inr demo_frame),
      to_csv = simple_to_csv,
      read_csv = simple_read_csv,
      str_lower = ascii_lower,
      list_blobs_raises = (\<lambda>p. False),
      upload_raises = (\<lambda>n. False),
      download_raises = (\<lambda>n. False),
      copy_raises = (\<lambda>s d. False),
      delete_raises = (\<lambda>n. False),
      to_sql_raises = (\<lambda>db c. False)\<rparr>"

definition empty_world :: world where
  "empty_world = \<lparr>blobs = [], pg_writes = [], clock_reads = 0, trace = []\<rparr>"

text \<open>A bucket that holds one staged file, as the exporter writes it for \<open>events\<close>.\<close>

definition staged_world :: world where
  "staged_world =
     \<lparr>blobs = [(''processing_zone/events_20240114.csv'', simple_to_csv demo_frame)],
      pg_writes = [], clock_reads = 0, trace = []\<rparr>"

text \<open>Environments in which one service fails, for the examples.\<close>

definition failing_db_env :: env where
  "failing_db_env = demo_env\<lparr>to_sql_raises := (\<lambda>db c. True)\<rparr>"

definition failing_catalog_env :: env where
  "failing_catalog_env = demo_env\<lparr>partitions_query := (\<lambda>ds t. Inl GoogleAPIError)\<rparr>"

definition failing_query_env :: env where
  "failing_query_env = demo_env\<lparr>select_query := (\<lambda>ds t f y. Inl GoogleAPIError)\<rparr>"

definition failing_upload_env :: env where
  "failing_upload_env = demo_env\<lparr>upload_raises := (\<lambda>n. True)\<rparr>"

definition empty_partition_env :: env where
  "empty_partition_env =
     demo_env\<lparr>select_query := (\<lambda>ds t f y. Inr \<lparr>columns = [''User_ID'', ''Day''], rows = []\<rparr>)\<rparr>"


definition failing_db_and_copy_env :: env where
  "failing_db_and_copy_env = demo_env\<lparr>to_sql_raises := (\<lambda>db c. True), copy_raises := (\<lambda>s d. True)\<rparr>"

definition no_db_env :: env where
  "no_db_env = demo_env\<lparr>pg_connect_raises := True\<rparr>"


text \<open>
  An upload, by the exporter, of the file of a table that passed the partition check for
  \<open>yesterday\<close>: the object name carries the table and \<open>yesterday\<close> without its dashes.
\<close>

definition staged_upload :: "env \<Rightarrow> string \<Rightarrow> string \<Rightarrow> call \<Rightarrow> bool" where
  "staged_upload env fds y c =
     (\<exists>t d. c = Upload (processing_zone @ t @ ''_'' @ str_remove ''-'' y @ ''.csv'') d \<and>
            check_for_yesterdays_partition env t fds y = Some (str_remove ''-'' y))"

text \<open>A bucket that still holds a file staged by an earlier run.\<close>

definition leftover_world :: world where
  "leftover_world =
     \<lparr>blobs = [(''processing_zone/orders_20240110.csv'', simple_to_csv demo_frame)],
      pg_writes = [], clock_reads = 0, trace = []\<rparr>"

section \<open>Facts about the string operations\<close>

lemma str_remove_char: "str_remove [c] s = filter (\<lambda>x. x \<noteq> c) s"
  by (induction s) (auto simp: startswith_def)

lemma str_split_not_Nil: "str_split sep s \<noteq> []"
  by (induction s) (auto split: list.splits)

lemma str_split_no_sep: "sep \<notin> set s \<Longrightarrow> str_split sep s = [s]"
  by (induction s) auto

lemma str_split_append: "sep \<notin> set a \<Longrightarrow> str_split sep (a @ sep # r) = a # str_split sep r"
  by (induction a) auto

lemma length_str_split: "length (str_split sep s) = Suc (length (filter (\<lambda>c. c = sep) s))"
  by (induction s) (auto split: list.splits simp: str_split_not_Nil)

lemma str_split_single: 
  assumes "length (str_split sep s) < 2"
  shows "str_split sep s = [s]"
proof -
  from assms have "filter (\<lambda>c. c = sep) s = []"
    by (simp add: length_str_split)
  then have "sep \<notin> set s"
    by (auto simp: filter_empty_conv)
  then show ?thesis by (rule str_split_no_sep)
qed

lemma splitext_csv:
  assumes "CHR ''/'' \<notin> set stem" "CHR ''.'' \<notin> set stem" "stem \<noteq> []"
  shows "splitext (stem @ ''.csv'') = (stem, ''.csv'')"
proof -
  have sep: "rfind CHR ''/'' (stem @ ''.csv'') = - 1"
    using assms(1) by (simp add: rfind_def)
  have dot: "rfind CHR ''.'' (stem @ ''.csv'') = int (length stem)"
    by (simp add: rfind_def)
  have ex: "list_ex (\<lambda>c. c \<noteq> CHR ''.'') stem"
    using assms(2,3) by (cases stem) (auto simp: list_ex_iff)
  show ?thesis
    unfolding splitext_def sep dot using ex by simp
qed

lemma extract_truncates:
  assumes "CHR ''_'' \<notin> set a" "CHR ''_'' \<notin> set b"
    and "CHR ''/'' \<notin> set (a @ b @ rest)" "CHR ''.'' \<notin> set (a @ b @ rest)"
  shows "extract_table_name_from_filename (a @ ''_'' @ b @ ''_'' @ rest @ ''.csv'') = a @ ''_'' @ b"
proof -
  let ?stem = "a @ ''_'' @ b @ ''_'' @ rest"
  have "splitext (?stem @ ''.csv'') = (?stem, ''.csv'')"
    using assms(3,4) by (intro splitext_csv) auto
  moreover have "str_split CHR ''_'' ?stem = a # b # str_split CHR ''_'' rest"
    using assms(1,2) by (simp add: str_split_append)
  ultimately show ?thesis
    by (simp add: extract_table_name_from_filename_def)
qed

lemmas extract_eval = extract_table_name_from_filename_def splitext_def rfind_def

section \<open>Table name derivation\<close>

text \<open>
  C3. The derived name joins the first two underscore-delimited tokens of the
  extension-stripped file name: \<open>user_events_20240114.csv\<close> gives \<open>user_events\<close>, but
  \<open>events_20240114.csv\<close>, the file the exporter stages for a table \<open>events\<close>, gives
  \<open>events_20240114\<close> and not the table name \<open>events\<close>.
\<close>

theorem extract_table_name_two_token_file:
  "extract_table_name_from_filename ''user_events_20240114.csv'' = ''user_events'' \<and>
   extract_table_name_from_filename ''events_20240114.csv'' = ''events_20240114'' \<and>
   extract_table_name_from_filename ''events_20240114.csv'' \<noteq> ''events''"
  by (simp add: extract_eval)

text \<open>
  C10. With fewer than two tokens the extension-stripped name is returned unchanged
  (\<open>events.csv\<close> gives \<open>events\<close>); with more than two tokens everything after the second
  is dropped, so a table name with two or more underscores is cut to its first two
  tokens, whatever follows them, and two such tables can share a target.
\<close>

theorem extract_table_name_token_count:
  "(length (str_split CHR ''_'' (fst (splitext f))) < 2 \<longrightarrow>
      extract_table_name_from_filename f = fst (splitext f)) \<and>
   extract_table_name_from_filename ''events.csv'' = ''events'' \<and>
   (\<forall>t1 t2 t3 ts. str_split CHR ''_'' (fst (splitext f)) = t1 # t2 # t3 # ts \<longrightarrow>
      extract_table_name_from_filename f = t1 @ ''_'' @ t2) \<and>
   (CHR ''_'' \<notin> set a \<and> CHR ''_'' \<notin> set b \<and>
    CHR ''/'' \<notin> set (a @ b @ rest) \<and> CHR ''.'' \<notin> set (a @ b @ rest) \<longrightarrow>
      extract_table_name_from_filename (a @ ''_'' @ b @ ''_'' @ rest @ ''.csv'') = a @ ''_'' @ b) \<and>
   extract_table_name_from_filename ''daily_user_events_20240114.csv'' =
     extract_table_name_from_filename ''daily_user_clicks_20240114.csv''"
proof (intro conjI allI impI)
  assume "length (str_split CHR ''_'' (fst (splitext f))) < 2"
  then have "str_split CHR ''_'' (fst (splitext f)) = [fst (splitext f)]"
    by (rule str_split_single)
  then show "extract_table_name_from_filename f = fst (splitext f)"
    by (simp add: extract_table_name_from_filename_def)
next
  show "extract_table_name_from_filename ''events.csv'' = ''events''"
    by (simp add: extract_eval)
next
  fix t1 t2 t3 ts
  assume "str_split CHR ''_'' (fst (splitext f)) = t1 # t2 # t3 # ts"
  then show "extract_table_name_from_filename f = t1 @ ''_'' @ t2"
    by (simp add: extract_table_name_from_filename_def)
next
  assume "CHR ''_'' \<notin> set a \<and> CHR ''_'' \<notin> set b \<and>
    CHR ''/'' \<notin> set (a @ b @ rest) \<and> CHR ''.'' \<notin> set (a @ b @ rest)"
  then show "extract_table_name_from_filename (a @ ''_'' @ b @ ''_'' @ rest @ ''.csv'') = a @ ''_'' @ b"
    using extract_truncates by blast
next
  show "extract_table_name_from_filename ''daily_user_events_20240114.csv'' =
     extract_table_name_from_filename ''daily_user_clicks_20240114.csv''"
    by (simp add: extract_eval)
qed

theorem extract_table_name_token_count_witness:
  "length (str_split CHR ''_'' (fst (splitext ''events.csv''))) < 2 \<and>
   extract_table_name_from_filename ''events.csv'' = fst (splitext ''events.csv'') \<and>
   str_split CHR ''_'' (fst (splitext ''a_b_c_20240114.csv'')) = [''a'', ''b'', ''c'', ''20240114''] \<and>
   extract_table_name_from_filename ''a_b_c_20240114.csv'' = ''a_b'' \<and>
   extract_table_name_from_filename (''a'' @ ''_'' @ ''b'' @ ''_'' @ ''d_20240114'' @ ''.csv'') = ''a_b''"
proof -
  have one: "length (str_split CHR ''_'' (fst (splitext ''events.csv''))) < 2"
    by (simp add: splitext_def rfind_def)
  have many: "str_split CHR ''_'' (fst (splitext ''a_b_c_20240114.csv''))
                = [''a'', ''b'', ''c'', ''20240114'']"
    by (simp add: splitext_def rfind_def)
  have chars: "CHR ''_'' \<notin> set ''a'' \<and> CHR ''_'' \<notin> set ''b'' \<and>
               CHR ''/'' \<notin> set (''a'' @ ''b'' @ ''d_20240114'') \<and>
               CHR ''.'' \<notin> set (''a'' @ ''b'' @ ''d_20240114'')"
    by simp
  from one extract_table_name_token_count [of "''events.csv''"]
  have r1: "extract_table_name_from_filename ''events.csv'' = fst (splitext ''events.csv'')"
    by blast
  from many extract_table_name_token_count [of "''a_b_c_20240114.csv''"]
  have r2: "extract_table_name_from_filename ''a_b_c_20240114.csv'' = ''a'' @ ''_'' @ ''b''"
    by blast
  from chars extract_table_name_token_count [of _ "''a''" "''b''" "''d_20240114''"]
  have r3: "extract_table_name_from_filename (''a'' @ ''_'' @ ''b'' @ ''_'' @ ''d_20240114'' @ ''.csv'')
              = ''a'' @ ''_'' @ ''b''"
    by blast
  from one many r1 r2 r3 show ?thesis by simp
qed

section \<open>Facts about the storage primitives\<close>

lemma upload_from_string_ok:
  "upload_from_string env w n d = (None, w') \<Longrightarrow> map_of (blobs w') = (map_of (blobs w))(n \<mapsto> d)"
  by (auto simp: upload_from_string_def record_call_def update_conv' split: if_splits)

lemma copy_blob_result:
  "copy_blob env w src dst = (r, w1) \<Longrightarrow>
     trace w1 = trace w @ [CopyBlob src dst] \<and> pg_writes w1 = pg_writes w \<and>
     clock_reads w1 = clock_reads w \<and>
     (case r of
        Some e \<Rightarrow> blobs w1 = blobs w
      | None \<Rightarrow> \<not> copy_raises env src dst \<and>
                (\<exists>d. map_of (blobs w) src = Some d \<and> blobs w1 = AList.update dst d (blobs w)))"
  by (auto simp: copy_blob_def record_call_def split: if_splits option.splits)

lemma delete_blob_result:
  "delete_blob env w n = (r, w1) \<Longrightarrow>
     trace w1 = trace w @ [DeleteBlob n] \<and> pg_writes w1 = pg_writes w \<and>
     clock_reads w1 = clock_reads w \<and>
     (case r of
        Some e \<Rightarrow> blobs w1 = blobs w
      | None \<Rightarrow> map_of (blobs w) n \<noteq> None \<and> \<not> delete_raises env n \<and>
                blobs w1 = AList.delete n (blobs w))"
  by (auto simp: delete_blob_def record_call_def split: if_splits option.splits)

lemma move_file_in_gcs_result:
  "move_file_in_gcs env w src dst = (ok, w') \<Longrightarrow>
     (\<exists>d. trace w' = trace w @ [CopyBlob src dst, DeleteBlob src] \<and>
          map_of (blobs w) src = Some d \<and>
          map_of (blobs w') =
            (if ok then ((map_of (blobs w))(dst \<mapsto> d))(src := None)
             else (map_of (blobs w))(dst \<mapsto> d))) \<or>
     (trace w' = trace w @ [CopyBlob src dst] \<and> \<not> ok \<and> blobs w' = blobs w)"
  unfolding move_file_in_gcs_def
  by (auto split: prod.splits option.splits
           dest!: copy_blob_result delete_blob_result simp: update_conv' delete_conv')

lemma load_files_single_failed:
  assumes "\<not> fst (load_partition_to_postgresql env w f (extract_table_name_from_filename f))"
  shows "snd (load_files env w [f] s fl) =
         snd (move_file_in_gcs env
                (snd (load_partition_to_postgresql env w f (extract_table_name_from_filename f)))
                (processing_zone @ f) (unprocess_zone @ f))"
  using assms
  by (cases "load_partition_to_postgresql env w f (extract_table_name_from_filename f)")
     (simp add: Let_def split: prod.splits)

lemma demo_read: "simple_read_csv (simple_to_csv demo_frame) = Inr demo_frame"
  by (simp add: simple_read_csv_def simple_to_csv_def demo_frame_def)

lemma lower_demo_columns: "map ascii_lower (columns demo_frame) = [''user_id'', ''day'']"
  by (simp add: demo_frame_def ascii_lower_def ascii_lower_char_def)

lemma extract_events: "extract_table_name_from_filename ''events_20240114.csv'' = ''events_20240114''"
  by (simp add: extract_eval)

section \<open>The partition check\<close>

text \<open>
  C6. \<open>check_for_yesterdays_partition\<close> returns a partition id exactly when the first row
  of the catalog's answer carries the string obtained from \<open>yesterday\<close> by removing its
  dashes, and then it returns that string; a failing query gives \<open>None\<close>. The function
  has no exceptional result.
\<close>

theorem check_for_yesterdays_partition_exact:
  "(check_for_yesterdays_partition env table full_dataset_id yesterday \<noteq> None \<longleftrightarrow>
      (\<exists>more. partitions_query env full_dataset_id table =
                Inr (Some (filter (\<lambda>c. c \<noteq> CHR ''-'') yesterday) # more))) \<and>
   (\<forall>p. check_for_yesterdays_partition env table full_dataset_id yesterday = Some p \<longrightarrow>
        p = filter (\<lambda>c. c \<noteq> CHR ''-'') yesterday) \<and>
   (\<forall>e. partitions_query env full_dataset_id table = Inl e \<longrightarrow>
        check_for_yesterdays_partition env table full_dataset_id yesterday = None)"
  by (auto simp: check_for_yesterdays_partition_def Let_def str_remove_char
           split: sum.splits list.splits)

theorem check_for_yesterdays_partition_exact_witness:
  "partitions_query demo_env ''proj.ds'' ''events'' = Inr [Some ''20240114''] \<and>
   check_for_yesterdays_partition demo_env ''events'' ''proj.ds'' ''2024-01-14'' = Some ''20240114'' \<and>
   check_for_yesterdays_partition demo_env ''events'' ''proj.ds'' ''2024-01-15'' = None \<and>
   partitions_query failing_catalog_env ''proj.ds'' ''events'' = Inl GoogleAPIError \<and>
   check_for_yesterdays_partition failing_catalog_env ''events'' ''proj.ds'' ''2024-01-14'' = None"
proof -
  have q: "partitions_query demo_env ''proj.ds'' ''events'' = Inr [Some ''20240114'']"
    by (simp add: demo_env_def)
  have q': "partitions_query failing_catalog_env ''proj.ds'' ''events'' = Inl GoogleAPIError"
    by (simp add: failing_catalog_env_def)
  have a: "check_for_yesterdays_partition demo_env ''events'' ''proj.ds'' ''2024-01-14''
             = Some ''20240114''"
    using check_for_yesterdays_partition_exact
            [of demo_env "''events''" "''proj.ds''" "''2024-01-14''"] q
    by auto
  have b: "check_for_yesterdays_partition demo_env ''events'' ''proj.ds'' ''2024-01-15'' = None"
    using check_for_yesterdays_partition_exact
            [of demo_env "''events''" "''proj.ds''" "''2024-01-15''"] q
    by auto
  have c: "check_for_yesterdays_partition failing_catalog_env ''events'' ''proj.ds'' ''2024-01-14''
             = None"
    using check_for_yesterdays_partition_exact
            [of failing_catalog_env "''events''" "''proj.ds''" "''2024-01-14''"] q'
    by blast
  from q q' a b c show ?thesis by blast
qed

section \<open>Exporting one partition\<close>

text \<open>
  C7. When the partition query returns no rows, \<open>export_partition_to_csv\<close> returns
  \<open>False\<close> and leaves the world as it was. When it returns \<open>True\<close>, the query returned
  rows and the bucket differs from before exactly by the object
  \<open>processing_zone/{table}_{partition_id}.csv\<close>, which holds the rendered result; a
  non-empty result whose upload does not raise is exported. A failing query gives
  \<open>False\<close> with the world unchanged, and a failing upload gives \<open>False\<close> with the bucket
  unchanged. The function has no exceptional result.
\<close>

theorem export_partition_to_csv_staging:
  "(\<forall>df. select_query env ds table partition_field yesterday = Inr df \<and> rows df = [] \<longrightarrow>
         export_partition_to_csv env w ds table partition_field partition_id yesterday = (False, w)) \<and>
   (fst (export_partition_to_csv env w ds table partition_field partition_id yesterday) \<longrightarrow>
      (\<exists>df. select_query env ds table partition_field yesterday = Inr df \<and> rows df \<noteq> [] \<and>
            map_of (blobs (snd (export_partition_to_csv env w ds table partition_field partition_id
                                  yesterday)))
              = (map_of (blobs w))
                  (processing_zone @ table @ ''_'' @ partition_id @ ''.csv'' \<mapsto> to_csv env df))) \<and>
   (\<forall>df. select_query env ds table partition_field yesterday = Inr df \<and> \<not> df_empty df \<and>
         \<not> upload_raises env (processing_zone @ table @ ''_'' @ partition_id @ ''.csv'') \<longrightarrow>
         fst (export_partition_to_csv env w ds table partition_field partition_id yesterday)) \<and>
   (\<forall>e. select_query env ds table partition_field yesterday = Inl e \<longrightarrow>
         export_partition_to_csv env w ds table partition_field partition_id yesterday = (False, w)) \<and>
   (upload_raises env (processing_zone @ table @ ''_'' @ partition_id @ ''.csv'') \<longrightarrow>
      \<not> fst (export_partition_to_csv env w ds table partition_field partition_id yesterday) \<and>
      blobs (snd (export_partition_to_csv env w ds table partition_field partition_id yesterday))
        = blobs w)"
proof (intro conjI allI impI)
  fix df
  assume "select_query env ds table partition_field yesterday = Inr df \<and> rows df = []"
  then show "export_partition_to_csv env w ds table partition_field partition_id yesterday = (False, w)"
    by (simp add: export_partition_to_csv_def df_empty_def Let_def)
next
  assume ok: "fst (export_partition_to_csv env w ds table partition_field partition_id yesterday)"
  then obtain df where q: "select_query env ds table partition_field yesterday = Inr df"
    and ne: "\<not> df_empty df"
    by (auto simp: export_partition_to_csv_def Let_def split: sum.splits if_splits)
  from ok q ne obtain w1 where
    up: "upload_from_string env w (processing_zone @ table @ ''_'' @ partition_id @ ''.csv'')
           (to_csv env df) = (None, w1)"
    and r: "export_partition_to_csv env w ds table partition_field partition_id yesterday = (True, w1)"
    by (auto simp: export_partition_to_csv_def Let_def split: prod.splits option.splits)
  from ne have "rows df \<noteq> []" by (simp add: df_empty_def)
  with q r upload_from_string_ok[OF up]
  show "\<exists>df. select_query env ds table partition_field yesterday = Inr df \<and> rows df \<noteq> [] \<and>
            map_of (blobs (snd (export_partition_to_csv env w ds table partition_field partition_id
                                  yesterday)))
              = (map_of (blobs w))
                  (processing_zone @ table @ ''_'' @ partition_id @ ''.csv'' \<mapsto> to_csv env df)"
    by auto
next
  fix df
  assume "select_query env ds table partition_field yesterday = Inr df \<and> \<not> df_empty df \<and>
         \<not> upload_raises env (processing_zone @ table @ ''_'' @ partition_id @ ''.csv'')"
  then show "fst (export_partition_to_csv env w ds table partition_field partition_id yesterday)"
    by (simp add: export_partition_to_csv_def upload_from_string_def Let_def)
next
  fix e
  assume "select_query env ds table partition_field yesterday = Inl e"
  then show "export_partition_to_csv env w ds table partition_field partition_id yesterday = (False, w)"
    by (simp add: export_partition_to_csv_def Let_def)
next
  assume "upload_raises env (processing_zone @ table @ ''_'' @ partition_id @ ''.csv'')"
  then show "\<not> fst (export_partition_to_csv env w ds table partition_field partition_id yesterday)"
    by (simp add: export_partition_to_csv_def upload_from_string_def Let_def split: sum.splits)
next
  assume "upload_raises env (processing_zone @ table @ ''_'' @ partition_id @ ''.csv'')"
  then show "blobs (snd (export_partition_to_csv env w ds table partition_field partition_id yesterday))
        = blobs w"
    by (simp add: export_partition_to_csv_def upload_from_string_def record_call_def Let_def
             split: sum.splits)
qed

theorem export_partition_to_csv_staging_witness:
  "fst (export_partition_to_csv demo_env empty_world ''proj.ds'' ''events'' ''day'' ''20240114''
          ''2024-01-14'') \<and>
   map_of (blobs (snd (export_partition_to_csv demo_env empty_world ''proj.ds'' ''events'' ''day''
                         ''20240114'' ''2024-01-14'')))
     ''processing_zone/events_20240114.csv'' = Some (simple_to_csv demo_frame) \<and>
   export_partition_to_csv empty_partition_env empty_world ''proj.ds'' ''events'' ''day'' ''20240114''
     ''2024-01-14'' = (False, empty_world) \<and>
   export_partition_to_csv failing_query_env empty_world ''proj.ds'' ''events'' ''day'' ''20240114''
     ''2024-01-14'' = (False, empty_world) \<and>
   \<not> fst (export_partition_to_csv failing_upload_env empty_world ''proj.ds'' ''events'' ''day''
            ''20240114'' ''2024-01-14'')"
proof -
  note T = export_partition_to_csv_staging
  have sel: "select_query demo_env ''proj.ds'' ''events'' ''day'' ''2024-01-14'' = Inr demo_frame \<and>
             \<not> df_empty demo_frame \<and>
             \<not> upload_raises demo_env (processing_zone @ ''events'' @ ''_'' @ ''20240114'' @ ''.csv'')"
    by (simp add: demo_env_def demo_frame_def df_empty_def)
  have csv: "to_csv demo_env = simple_to_csv"
    by (simp add: demo_env_def)
  have name: "processing_zone @ ''events'' @ ''_'' @ ''20240114'' @ ''.csv''
                = ''processing_zone/events_20240114.csv''"
    by (simp add: processing_zone_def)
  have a: "fst (export_partition_to_csv demo_env empty_world ''proj.ds'' ''events'' ''day''
                  ''20240114'' ''2024-01-14'')"
    using T [of demo_env "''proj.ds''" "''events''" "''day''" "''2024-01-14''" empty_world
               "''20240114''"] sel
    by blast
  have b: "map_of (blobs (snd (export_partition_to_csv demo_env empty_world ''proj.ds'' ''events''
                                 ''day'' ''20240114'' ''2024-01-14'')))
             ''processing_zone/events_20240114.csv'' = Some (simple_to_csv demo_frame)"
    using T [of demo_env "''proj.ds''" "''events''" "''day''" "''2024-01-14''" empty_world
               "''20240114''"] a sel csv name
    by auto
  have e: "select_query empty_partition_env ''proj.ds'' ''events'' ''day'' ''2024-01-14''
             = Inr \<lparr>columns = [''User_ID'', ''Day''], rows = []\<rparr>"
    by (simp add: empty_partition_env_def)
  have c: "export_partition_to_csv empty_partition_env empty_world ''proj.ds'' ''events'' ''day''
             ''20240114'' ''2024-01-14'' = (False, empty_world)"
    using T [of empty_partition_env "''proj.ds''" "''events''" "''day''" "''2024-01-14''" empty_world
               "''20240114''"] e
    by simp
  have f: "select_query failing_query_env ''proj.ds'' ''events'' ''day'' ''2024-01-14''
             = Inl GoogleAPIError"
    by (simp add: failing_query_env_def)
  have d: "export_partition_to_csv failing_query_env empty_world ''proj.ds'' ''events'' ''day''
             ''20240114'' ''2024-01-14'' = (False, empty_world)"
    using T [of failing_query_env "''proj.ds''" "''events''" "''day''" "''2024-01-14''" empty_world
               "''20240114''"] f
    by blast
  have u: "upload_raises failing_upload_env (processing_zone @ ''events'' @ ''_'' @ ''20240114'' @ ''.csv'')"
    by (simp add: failing_upload_env_def)
  have g: "\<not> fst (export_partition_to_csv failing_upload_env empty_world ''proj.ds'' ''events''
                     ''day'' ''20240114'' ''2024-01-14'')"
    using T [of failing_upload_env "''proj.ds''" "''events''" "''day''" "''2024-01-14''" empty_world
               "''20240114''"] u
    by blast
  from a b c d g show ?thesis by blast
qed

section \<open>Relocating a failed file\<close>

text \<open>
  C9. \<open>move_file_in_gcs\<close> issues the copy first. Either the copy raises, and then no
  delete is issued and the bucket is unchanged; or the copy has been performed (the
  destination holds the source's content) and only then the delete of the source is
  issued. The loader calls it, after a failed load of \<open>f\<close>, with source
  \<open>processing_zone/f\<close> and destination \<open>unprocess_zone/f\<close>: the same bare name.
\<close>

theorem move_file_in_gcs_copy_then_delete:
  "(case move_file_in_gcs env w src dst of
      (ok, w') \<Rightarrow>
        (\<exists>d. trace w' = trace w @ [CopyBlob src dst, DeleteBlob src] \<and>
             map_of (blobs w) src = Some d \<and>
             map_of (blobs w') =
               (if ok then ((map_of (blobs w))(dst \<mapsto> d))(src := None)
                else (map_of (blobs w))(dst \<mapsto> d))) \<or>
        (trace w' = trace w @ [CopyBlob src dst] \<and> \<not> ok \<and> blobs w' = blobs w)) \<and>
   (\<not> fst (load_partition_to_postgresql env w f (extract_table_name_from_filename f)) \<longrightarrow>
      snd (load_files env w [f] s fl) =
      snd (move_file_in_gcs env
             (snd (load_partition_to_postgresql env w f (extract_table_name_from_filename f)))
             (processing_zone @ f) (unprocess_zone @ f)))"
proof (intro conjI impI)
  obtain ok w' where m: "move_file_in_gcs env w src dst = (ok, w')"
    by (cases "move_file_in_gcs env w src dst")
  from move_file_in_gcs_result[OF m] m
  show "case move_file_in_gcs env w src dst of
      (ok, w') \<Rightarrow>
        (\<exists>d. trace w' = trace w @ [CopyBlob src dst, DeleteBlob src] \<and>
             map_of (blobs w) src = Some d \<and>
             map_of (blobs w') =
               (if ok then ((map_of (blobs w))(dst \<mapsto> d))(src := None)
                else (map_of (blobs w))(dst \<mapsto> d))) \<or>
        (trace w' = trace w @ [CopyBlob src dst] \<and> \<not> ok \<and> blobs w' = blobs w)"
    by simp
next
  assume "\<not> fst (load_partition_to_postgresql env w f (extract_table_name_from_filename f))"
  then show "snd (load_files env w [f] s fl) =
      snd (move_file_in_gcs env
             (snd (load_partition_to_postgresql env w f (extract_table_name_from_filename f)))
             (processing_zone @ f) (unprocess_zone @ f))"
    by (rule load_files_single_failed)
qed

lemma failing_db_load:
  "load_partition_to_postgresql failing_db_env staged_world ''events_20240114.csv''
     (extract_table_name_from_filename ''events_20240114.csv'')
   = (False, staged_world\<lparr>trace :=
        [Download ''processing_zone/events_20240114.csv'',
         ToSql \<lparr>sql_name = ''events_20240114'', sql_schema = ''public'', sql_chunksize = 5000,
                sql_index = False, sql_if_exists = Append,
                sql_frame = \<lparr>columns = [''user_id'', ''day''],
                             rows = [[''7'', ''2024-01-14'']]\<rparr>\<rparr>]\<rparr>)"
  apply (simp add: load_partition_to_postgresql_def download_to_file_def failing_db_env_def
      demo_env_def staged_world_def demo_read to_sql_def record_call_def Let_def processing_zone_def
      extract_events)
  apply (simp add: demo_frame_def ascii_lower_def ascii_lower_char_def)
  done

theorem move_file_in_gcs_copy_then_delete_witness:
  "\<not> fst (load_partition_to_postgresql failing_db_env staged_world ''events_20240114.csv''
            (extract_table_name_from_filename ''events_20240114.csv'')) \<and>
   blobs (snd (load_files failing_db_env staged_world [''events_20240114.csv''] [] []))
     = [(''unprocess_zone/events_20240114.csv'', simple_to_csv demo_frame)] \<and>
   trace (snd (load_files failing_db_env staged_world [''events_20240114.csv''] [] []))
     = [Download ''processing_zone/events_20240114.csv'',
        ToSql \<lparr>sql_name = ''events_20240114'', sql_schema = ''public'', sql_chunksize = 5000,
               sql_index = False, sql_if_exists = Append,
               sql_frame = \<lparr>columns = [''user_id'', ''day''],
                            rows = [[''7'', ''2024-01-14'']]\<rparr>\<rparr>,
        CopyBlob ''processing_zone/events_20240114.csv'' ''unprocess_zone/events_20240114.csv'',
        DeleteBlob ''processing_zone/events_20240114.csv'']"
proof -
  let ?f = "''events_20240114.csv''"
  let ?w1 = "snd (load_partition_to_postgresql failing_db_env staged_world ?f
                   (extract_table_name_from_filename ?f))"
  have failed: "\<not> fst (load_partition_to_postgresql failing_db_env staged_world ?f
                         (extract_table_name_from_filename ?f))"
    by (simp add: failing_db_load)
  with move_file_in_gcs_copy_then_delete
         [where env = failing_db_env and w = staged_world and f = ?f and s = "[]" and fl = "[]"]
  have step: "snd (load_files failing_db_env staged_world [?f] [] []) =
              snd (move_file_in_gcs failing_db_env ?w1 (processing_zone @ ?f) (unprocess_zone @ ?f))"
    by blast
  have moved: "move_file_in_gcs failing_db_env ?w1 (processing_zone @ ?f) (unprocess_zone @ ?f)
      = (True, \<lparr>blobs = [(''unprocess_zone/events_20240114.csv'', simple_to_csv demo_frame)],
                pg_writes = [], clock_reads = 0,
                trace = [Download ''processing_zone/events_20240114.csv'',
        ToSql \<lparr>sql_name = ''events_20240114'', sql_schema = ''public'', sql_chunksize = 5000,
               sql_index = False, sql_if_exists = Append,
               sql_frame = \<lparr>columns = [''user_id'', ''day''],
                            rows = [[''7'', ''2024-01-14'']]\<rparr>\<rparr>,
        CopyBlob ''processing_zone/events_20240114.csv'' ''unprocess_zone/events_20240114.csv'',
        DeleteBlob ''processing_zone/events_20240114.csv'']\<rparr>)"
    apply (simp only: failing_db_load snd_conv)
    apply (simp add: move_file_in_gcs_def copy_blob_def delete_blob_def
          failing_db_env_def demo_env_def staged_world_def record_call_def processing_zone_def
          unprocess_zone_def AList.delete_eq)
    done
  from failed step moved show ?thesis by simp
qed

section \<open>Loading one staged file\<close>

lemma download_to_file_result:
  "download_to_file env w n = (r, w1) \<Longrightarrow>
     w1 = record_call (Download n) w \<and>
     (case r of Inl e \<Rightarrow> True | Inr d \<Rightarrow> \<not> download_raises env n \<and> map_of (blobs w) n = Some d)"
  by (auto simp: download_to_file_def split: if_splits option.splits)

lemma to_sql_result:
  "to_sql env w con c = (r, w1) \<Longrightarrow>
     blobs w1 = blobs w \<and> clock_reads w1 = clock_reads w \<and> trace w1 = trace w @ [ToSql c] \<and>
     (case r of
        Some e \<Rightarrow> pg_writes w1 = pg_writes w
      | None \<Rightarrow> pandas_accepts con \<and> pg_writes w1 = pg_writes w @ [c])"
  by (auto simp: to_sql_def record_call_def split: if_splits)

text \<open>On the connection the repository opens, \<open>to_sql\<close> raises.\<close>

lemma to_sql_pg_connection:
  "to_sql env w pg_connection c = (Some OtherException, record_call (ToSql c) w)"
  by (simp add: to_sql_def pg_connection_def pandas_accepts_def)

lemma dataframe_columns_update:
  "df\<lparr>columns := cs\<rparr> = \<lparr>columns = cs, rows = rows df\<rparr>"
  by (cases df) simp

lemma load_partition_to_postgresql_unfold:
  "load_partition_to_postgresql env w file_name table_name =
     (False,
      case (if download_raises env (processing_zone @ file_name) then None
            else map_of (blobs w) (processing_zone @ file_name)) of
        None \<Rightarrow> record_call (Download (processing_zone @ file_name)) w
      | Some buffer \<Rightarrow>
          (case read_csv env buffer of
             Inl e \<Rightarrow> record_call (Download (processing_zone @ file_name)) w
           | Inr df \<Rightarrow>
               record_call
                 (ToSql \<lparr>sql_name = table_name, sql_schema = ''public'', sql_chunksize = 5000,
                         sql_index = False,
                         sql_if_exists =
                           (if table_name = ''partitioned_table3'' then Replace else Append),
                         sql_frame = \<lparr>columns = map (str_lower env) (columns df),
                                      rows = rows df\<rparr>\<rparr>)
                 (record_call (Download (processing_zone @ file_name)) w)))"
  by (simp add: load_partition_to_postgresql_def download_to_file_def to_sql_pg_connection Let_def
                dataframe_columns_update
           split: option.splits sum.splits)

text \<open>
  C4. \<open>load_partition_to_postgresql\<close> never loads a file: it returns \<open>False\<close> on every
  input and leaves the database as it was. When the download and the parse succeed it
  does issue the \<open>to_sql\<close> call the claim describes (every parsed column name
  lowercased, \<open>chunksize = 5000\<close>, \<open>replace\<close> exactly for \<open>partitioned_table3\<close> and
  \<open>append\<close> otherwise), but on the \<open>psycopg2\<close> connection, and that call raises.
\<close>

theorem load_partition_to_postgresql_never_loads:
  "\<not> fst (load_partition_to_postgresql env w file_name table_name) \<and>
   pg_writes (snd (load_partition_to_postgresql env w file_name table_name)) = pg_writes w \<and>
   (\<forall>buffer df.
      \<not> download_raises env (processing_zone @ file_name) \<and>
      map_of (blobs w) (processing_zone @ file_name) = Some buffer \<and>
      read_csv env buffer = Inr df \<longrightarrow>
      trace (snd (load_partition_to_postgresql env w file_name table_name)) =
        trace w @
        [Download (processing_zone @ file_name),
         ToSql \<lparr>sql_name = table_name, sql_schema = ''public'', sql_chunksize = 5000,
                sql_index = False,
                sql_if_exists = (if table_name = ''partitioned_table3'' then Replace else Append),
                sql_frame = \<lparr>columns = map (str_lower env) (columns df), rows = rows df\<rparr>\<rparr>])"
proof (intro conjI allI impI)
  show "\<not> fst (load_partition_to_postgresql env w file_name table_name)"
    by (simp add: load_partition_to_postgresql_unfold)
next
  show "pg_writes (snd (load_partition_to_postgresql env w file_name table_name)) = pg_writes w"
    by (simp add: load_partition_to_postgresql_unfold record_call_def
             split: option.splits sum.splits)
next
  fix buffer df
  assume "\<not> download_raises env (processing_zone @ file_name) \<and>
      map_of (blobs w) (processing_zone @ file_name) = Some buffer \<and>
      read_csv env buffer = Inr df"
  then show "trace (snd (load_partition_to_postgresql env w file_name table_name)) =
        trace w @
        [Download (processing_zone @ file_name),
         ToSql \<lparr>sql_name = table_name, sql_schema = ''public'', sql_chunksize = 5000,
                sql_index = False,
                sql_if_exists = (if table_name = ''partitioned_table3'' then Replace else Append),
                sql_frame = \<lparr>columns = map (str_lower env) (columns df), rows = rows df\<rparr>\<rparr>]"
    by (simp add: load_partition_to_postgresql_unfold record_call_def)
qed

theorem load_partition_to_postgresql_never_loads_witness:
  "\<not> download_raises demo_env (processing_zone @ ''events_20240114.csv'') \<and>
   map_of (blobs staged_world) (processing_zone @ ''events_20240114.csv'')
     = Some (simple_to_csv demo_frame) \<and>
   read_csv demo_env (simple_to_csv demo_frame) = Inr demo_frame \<and>
   \<not> fst (load_partition_to_postgresql demo_env staged_world ''events_20240114.csv''
            ''events_20240114'') \<and>
   pg_writes (snd (load_partition_to_postgresql demo_env staged_world ''events_20240114.csv''
                     ''events_20240114'')) = [] \<and>
   trace (snd (load_partition_to_postgresql demo_env staged_world ''events_20240114.csv''
                 ''events_20240114'')) =
     [Download ''processing_zone/events_20240114.csv'',
      ToSql \<lparr>sql_name = ''events_20240114'', sql_schema = ''public'', sql_chunksize = 5000,
             sql_index = False, sql_if_exists = Append,
             sql_frame = \<lparr>columns = [''user_id'', ''day''],
                          rows = [[''7'', ''2024-01-14'']]\<rparr>\<rparr>]"
proof -
  let ?f = "''events_20240114.csv''"
  note T = load_partition_to_postgresql_never_loads
             [of demo_env staged_world ?f "''events_20240114''"]
  have h: "\<not> download_raises demo_env (processing_zone @ ?f) \<and>
           map_of (blobs staged_world) (processing_zone @ ?f) = Some (simple_to_csv demo_frame) \<and>
           read_csv demo_env (simple_to_csv demo_frame) = Inr demo_frame"
    by (simp add: demo_env_def staged_world_def processing_zone_def demo_read)
  from T [THEN conjunct2, THEN conjunct2, rule_format, OF h]
  have tr: "trace (snd (load_partition_to_postgresql demo_env staged_world ?f ''events_20240114'')) =
        trace staged_world @
        [Download (processing_zone @ ?f),
         ToSql \<lparr>sql_name = ''events_20240114'', sql_schema = ''public'', sql_chunksize = 5000,
                sql_index = False,
                sql_if_exists =
                  (if ''events_20240114'' = ''partitioned_table3'' then Replace else Append),
                sql_frame = \<lparr>columns = map (str_lower demo_env) (columns demo_frame),
                             rows = rows demo_frame\<rparr>\<rparr>]" .
  have cols: "map (str_lower demo_env) (columns demo_frame) = [''user_id'', ''day'']"
    by (simp add: demo_env_def lower_demo_columns)
  have rws: "rows demo_frame = [[''7'', ''2024-01-14'']]"
    by (simp add: demo_frame_def)
  have empty: "trace staged_world = [] \<and> pg_writes staged_world = []"
    by (simp add: staged_world_def)
  from tr cols rws empty
  have tr': "trace (snd (load_partition_to_postgresql demo_env staged_world ?f ''events_20240114'')) =
     [Download ''processing_zone/events_20240114.csv'',
      ToSql \<lparr>sql_name = ''events_20240114'', sql_schema = ''public'', sql_chunksize = 5000,
             sql_index = False, sql_if_exists = Append,
             sql_frame = \<lparr>columns = [''user_id'', ''day''],
                          rows = [[''7'', ''2024-01-14'']]\<rparr>\<rparr>]"
    by (simp add: processing_zone_def)
  from T [THEN conjunct1] T [THEN conjunct2, THEN conjunct1] empty h tr'
  show ?thesis by simp
qed

section \<open>The load pass\<close>


lemma load_files_Cons:
  "load_files env w (f # rest) s fl =
     (case load_step env w f of
        (Some True, w2) \<Rightarrow> load_files env w2 rest (s @ [f]) fl
      | (Some False, w2) \<Rightarrow> load_files env w2 rest s (fl @ [f])
      | (None, w2) \<Rightarrow> load_files env w2 rest s fl)"
  by (simp add: load_step_def Let_def split: prod.splits)

lemma load_partition_to_postgresql_result:
  "load_partition_to_postgresql env w f t = (ok, w1) \<Longrightarrow>
     blobs w1 = blobs w \<and> clock_reads w1 = clock_reads w \<and>
     (ok \<longrightarrow> map_of (blobs w) (processing_zone @ f) \<noteq> None) \<and>
     (\<exists>c. trace w1 = trace w @ Download (processing_zone @ f) # map ToSql c)"
proof -
  assume a: "load_partition_to_postgresql env w f t = (ok, w1)"
  obtain r wd where d: "download_to_file env w (processing_zone @ f) = (r, wd)"
    by (cases "download_to_file env w (processing_zone @ f)")
  from download_to_file_result[OF d]
  have wd: "wd = record_call (Download (processing_zone @ f)) w"
    and rd: "case r of Inl e \<Rightarrow> True | Inr d \<Rightarrow> map_of (blobs w) (processing_zone @ f) = Some d"
    by (simp_all split: sum.splits)
  show ?thesis
  proof (cases r)
    case (Inl e)
    with a d wd show ?thesis
      by (auto simp: load_partition_to_postgresql_def record_call_def intro: exI [of _ "[]"])
  next
    case (Inr buffer)
    with rd have present: "map_of (blobs w) (processing_zone @ f) \<noteq> None" by simp
    show ?thesis
    proof (cases "read_csv env buffer")
      case (Inl e)
      with a d wd Inr present show ?thesis
        by (auto simp: load_partition_to_postgresql_def record_call_def intro: exI [of _ "[]"])
    next
      case (Inr df)
      let ?c = "\<lparr>sql_name = t, sql_schema = ''public'', sql_chunksize = 5000,
               sql_index = False,
               sql_if_exists = (if t = ''partitioned_table3'' then Replace else Append),
               sql_frame = df\<lparr>columns := map (str_lower env) (columns df)\<rparr>\<rparr>"
      obtain rs ws where t: "to_sql env wd pg_connection ?c = (rs, ws)"
        by (cases "to_sql env wd pg_connection ?c")
      with a d \<open>r = Inr buffer\<close> Inr have "w1 = ws"
        by (auto simp: load_partition_to_postgresql_def Let_def split: option.splits)
      with to_sql_result[OF t] wd present show ?thesis
        by (auto simp: record_call_def intro: exI [of _ "[?c]"])
    qed
  qed
qed

lemma delete_blob_failed:
  "delete_blob env w n = (Some e, w1) \<Longrightarrow> delete_raises env n \<or> map_of (blobs w) n = None"
  by (auto simp: delete_blob_def split: if_splits option.splits)


lemma delete_file_from_gcs_result:
  "delete_file_from_gcs env w n = (ok, w1) \<Longrightarrow>
     trace w1 = trace w @ [DeleteBlob n] \<and> clock_reads w1 = clock_reads w \<and>
     (if ok then map_of (blobs w) n \<noteq> None \<and> map_of (blobs w1) = (map_of (blobs w))(n := None)
      else blobs w1 = blobs w \<and> (delete_raises env n \<or> map_of (blobs w) n = None))"
  unfolding delete_file_from_gcs_def
  by (auto split: prod.splits option.splits dest: delete_blob_result delete_blob_failed
           simp: delete_conv')



lemma zone_prefixes_differ [simp]:
  "unprocess_zone \<noteq> processing_zone" "processing_zone \<noteq> unprocess_zone"
  by (simp_all add: processing_zone_def unprocess_zone_def)

lemma zone_names_inj [simp]:
  "(processing_zone @ f = processing_zone @ g) = (f = g)"
  "(unprocess_zone @ f = unprocess_zone @ g) = (f = g)"
  by simp_all







lemma list_blobs_result:
  "list_blobs env w pre = (r, w1) \<Longrightarrow>
     w1 = record_call (ListBlobs pre) w \<and>
     (case r of
        Inl e \<Rightarrow> list_blobs_raises env pre
      | Inr names \<Rightarrow> \<not> list_blobs_raises env pre \<and>
                      names = filter (\<lambda>n. startswith n pre) (map fst (blobs w)))"
  by (auto simp: list_blobs_def split: if_splits)

lemma get_gcs_files_in_processing_zone_world:
  "snd (get_gcs_files_in_processing_zone env w) = record_call (ListBlobs processing_zone) w"
  by (auto simp: get_gcs_files_in_processing_zone_def list_blobs_def split: prod.splits sum.splits)

lemma comprehension_map_filter:
  "concat (map (\<lambda>n. if P n then [g n] else []) xs) = map g (filter P xs)"
  by (induction xs) auto

lemma get_gcs_files_in_processing_zone_names:
  "\<not> list_blobs_raises env processing_zone \<Longrightarrow>
   fst (get_gcs_files_in_processing_zone env w) =
     map (str_remove processing_zone)
       (filter (\<lambda>n. endswith n ''.csv'' \<and> startswith n processing_zone) (map fst (blobs w)))"
  by (auto simp: get_gcs_files_in_processing_zone_def list_blobs_def comprehension_map_filter
           intro!: arg_cong [where f = "map (str_remove processing_zone)"] filter_cong)

lemma load_all_partitions_to_postgresql_pass:
  assumes "\<not> load_config_raises env" "\<not> gcs_client_raises env" "\<not> pg_connect_raises env"
    and "truthy (bucket_name env)"
    and "fst (get_gcs_files_in_processing_zone env w) \<noteq> []"
  shows "load_all_partitions_to_postgresql env w =
         load_files env (record_call (ListBlobs processing_zone) w)
           (fst (get_gcs_files_in_processing_zone env w)) [] []"
  using assms get_gcs_files_in_processing_zone_world[of env w]
  by (cases "get_gcs_files_in_processing_zone env w")
     (simp add: load_all_partitions_to_postgresql_def)

lemma staged_listing:
  "\<not> list_blobs_raises env processing_zone \<Longrightarrow>
   fst (get_gcs_files_in_processing_zone env staged_world) = [''events_20240114.csv'']"
  by (simp add: get_gcs_files_in_processing_zone_names)
     (simp add: staged_world_def processing_zone_def startswith_def endswith_def)


lemmas run_eval =
  load_all_partitions_to_postgresql_def get_gcs_files_in_processing_zone_def list_blobs_def
  load_partition_to_postgresql_def download_to_file_def to_sql_def delete_file_from_gcs_def
  delete_blob_def move_file_in_gcs_def copy_blob_def record_call_def truthy_def
  pg_connection_def pandas_accepts_def
  processing_zone_def unprocess_zone_def startswith_def endswith_def
  staged_world_def demo_read extract_eval AList.delete_eq Let_def


lemma failing_db_and_copy_run:
  "fst (load_all_partitions_to_postgresql failing_db_and_copy_env staged_world) = ([], []) \<and>
   downloads (trace (snd (load_all_partitions_to_postgresql failing_db_and_copy_env staged_world)))
     = [''processing_zone/events_20240114.csv''] \<and>
   map fst (blobs (snd (load_all_partitions_to_postgresql failing_db_and_copy_env staged_world)))
     = [''processing_zone/events_20240114.csv'']"
  by (simp add: failing_db_and_copy_env_def demo_env_def run_eval)






text \<open>
  C2. The database rejects the write and the copy to the failed zone raises: the staged
  file \<open>events_20240114.csv\<close> is listed and downloaded, and the run returns two empty
  lists. The file is reported neither as loaded nor as failed, and it is still in the
  processing zone.
\<close>

theorem load_all_partitions_drops_unmoved_file:
  "fst (get_gcs_files_in_processing_zone failing_db_and_copy_env staged_world)
     = [''events_20240114.csv''] \<and>
   fst (load_all_partitions_to_postgresql failing_db_and_copy_env staged_world) = ([], []) \<and>
   downloads (trace (snd (load_all_partitions_to_postgresql failing_db_and_copy_env staged_world)))
     = [''processing_zone/events_20240114.csv''] \<and>
   map fst (blobs (snd (load_all_partitions_to_postgresql failing_db_and_copy_env staged_world)))
     = [''processing_zone/events_20240114.csv'']"
proof -
  have "\<not> list_blobs_raises failing_db_and_copy_env processing_zone"
    by (simp add: failing_db_and_copy_env_def demo_env_def)
  then show ?thesis
    using failing_db_and_copy_run by (simp add: staged_listing)
qed

section \<open>The orchestrated run\<close>

lemma downloads_append: "downloads (xs @ ys) = downloads xs @ downloads ys"
  by (induction xs rule: downloads.induct) simp_all

lemma downloads_ToSql: "downloads (map ToSql cs) = []"
  by (induction cs) simp_all

lemma load_step_downloads:
  "downloads (trace (snd (load_step env w f))) = downloads (trace w) @ [processing_zone @ f]"
proof -
  obtain ok w1 where l: "load_partition_to_postgresql env w f (extract_table_name_from_filename f)
                           = (ok, w1)"
    by (cases "load_partition_to_postgresql env w f (extract_table_name_from_filename f)")
  from load_partition_to_postgresql_result[OF l]
  have t1: "downloads (trace w1) = downloads (trace w) @ [processing_zone @ f]"
    by (auto simp: downloads_append downloads_ToSql)
  show ?thesis
  proof (cases ok)
    case True
    obtain dok wd where d: "delete_file_from_gcs env w1 (processing_zone @ f) = (dok, wd)"
      by (cases "delete_file_from_gcs env w1 (processing_zone @ f)")
    from l True d have "snd (load_step env w f) = wd"
      by (simp add: load_step_def Let_def)
    with delete_file_from_gcs_result[OF d] t1 show ?thesis
      by (simp add: downloads_append)
  next
    case False
    obtain mok wm where m: "move_file_in_gcs env w1 (processing_zone @ f) (unprocess_zone @ f)
                              = (mok, wm)"
      by (cases "move_file_in_gcs env w1 (processing_zone @ f) (unprocess_zone @ f)")
    from l False m have "snd (load_step env w f) = wm"
      by (simp add: load_step_def Let_def)
    with move_file_in_gcs_result[OF m] t1 show ?thesis
      by (auto simp: downloads_append)
  qed
qed

lemma load_files_downloads:
  "downloads (trace (snd (load_files env w fs s fl)))
     = downloads (trace w) @ map (\<lambda>f. processing_zone @ f) fs"
proof (induction fs arbitrary: w s fl)
  case Nil
  show ?case by simp
next
  case (Cons g rest)
  obtain v w2 where st: "load_step env w g = (v, w2)"
    by (cases "load_step env w g")
  from load_step_downloads[of env w g] st
  have d: "downloads (trace w2) = downloads (trace w) @ [processing_zone @ g]" by simp
  obtain s' fl' where "load_files env w (g # rest) s fl = load_files env w2 rest s' fl'"
    using st by (cases v; cases "the v") (auto simp: load_files_Cons simp del: load_files.simps)
  with Cons.IH[of w2 s' fl'] d show ?case by simp
qed


text \<open>What the exporter does to the world: it reads the clock and uploads, nothing else.\<close>

lemma upload_from_string_effect:
  assumes "upload_from_string env w n d = (r, w1)"
  shows "clock_reads w1 = clock_reads w \<and> pg_writes w1 = pg_writes w \<and>
         fst ` set (blobs w) \<subseteq> fst ` set (blobs w1) \<and> trace w1 = trace w @ [Upload n d]"
proof (cases "upload_raises env n")
  case True
  with assms show ?thesis
    by (auto simp: upload_from_string_def record_call_def)
next
  case False
  with assms have w1: "w1 = (record_call (Upload n d) w)\<lparr>blobs := AList.update n d (blobs w)\<rparr>"
    by (simp add: upload_from_string_def)
  have "fst ` set (AList.update n d (blobs w)) = {n} \<union> fst ` set (blobs w)"
    by (rule dom_update)
  with w1 show ?thesis
    by (auto simp: record_call_def)
qed

lemma export_partition_to_csv_effect:
  assumes "export_partition_to_csv env w ds t field pid y = (ok, w1)"
  shows "clock_reads w1 = clock_reads w \<and> pg_writes w1 = pg_writes w \<and>
         fst ` set (blobs w) \<subseteq> fst ` set (blobs w1) \<and>
         (trace w1 = trace w \<or>
          (\<exists>d. trace w1 = trace w @ [Upload (processing_zone @ t @ ''_'' @ pid @ ''.csv'') d]))"
proof (cases "select_query env ds t field y")
  case (Inl e)
  with assms show ?thesis by (simp add: export_partition_to_csv_def Let_def)
next
  case (Inr df)
  show ?thesis
  proof (cases "df_empty df")
    case True
    with Inr assms show ?thesis by (simp add: export_partition_to_csv_def Let_def)
  next
    case False
    obtain r wu where u: "upload_from_string env w (processing_zone @ t @ ''_'' @ pid @ ''.csv'')
                            (to_csv env df) = (r, wu)"
      by (cases "upload_from_string env w (processing_zone @ t @ ''_'' @ pid @ ''.csv'')
                   (to_csv env df)")
    with Inr False assms have "w1 = wu"
      by (auto simp: export_partition_to_csv_def Let_def split: option.splits)
    with upload_from_string_effect[OF u] show ?thesis by blast
  qed
qed

lemma export_tables_Cons:
  "export_tables env w fds ds y pid (t # ts) ex =
     (if truthy (check_for_yesterdays_partition env t fds y) then
        (case get_partitioning_field env t ds of
           Inl e \<Rightarrow> (Inl e, w)
         | Inr field \<Rightarrow>
             (if truthy field
              then (case export_partition_to_csv env w fds t (the field) pid y of
                      (success, w1) \<Rightarrow>
                        export_tables env w1 fds ds y pid ts (if success then ex @ [t] else ex))
              else export_tables env w fds ds y pid ts ex))
      else export_tables env w fds ds y pid ts ex)"
  by (simp add: Let_def split: sum.splits prod.splits)

lemma truthy_check:
  "truthy (check_for_yesterdays_partition env t fds y) \<Longrightarrow>
   check_for_yesterdays_partition env t fds y = Some (str_remove ''-'' y)"
  by (auto simp: truthy_def check_for_yesterdays_partition_def Let_def
           split: option.splits sum.splits if_splits)

lemma export_tables_effect:
  "export_tables env w fds ds y (str_remove ''-'' y) ts ex = (ex', w') \<Longrightarrow>
     clock_reads w' = clock_reads w \<and> pg_writes w' = pg_writes w \<and>
     fst ` set (blobs w) \<subseteq> fst ` set (blobs w') \<and>
     (\<exists>ups. trace w' = trace w @ ups \<and> (\<forall>c \<in> set ups. staged_upload env fds y c))"
proof (induction ts arbitrary: w ex)
  case Nil
  then show ?case by simp
next
  case (Cons t ts)
  show ?case
  proof (cases "truthy (check_for_yesterdays_partition env t fds y)")
    case False
    with Cons.prems have "export_tables env w fds ds y (str_remove ''-'' y) ts ex = (ex', w')"
      by (simp add: export_tables_Cons del: export_tables.simps)
    from Cons.IH[OF this] show ?thesis .
  next
    case chk: True
    then have el: "check_for_yesterdays_partition env t fds y = Some (str_remove ''-'' y)"
      by (rule truthy_check)
    show ?thesis
    proof (cases "get_partitioning_field env t ds")
      case (Inl e)
      with chk Cons.prems have "w' = w"
        by (simp add: export_tables_Cons del: export_tables.simps)
      then have "trace w' = trace w @ [] \<and> (\<forall>c \<in> set []. staged_upload env fds y c)"
        by simp
      then have "\<exists>ups. trace w' = trace w @ ups \<and> (\<forall>c \<in> set ups. staged_upload env fds y c)" ..
      with \<open>w' = w\<close> show ?thesis by simp
    next
      case (Inr field)
      show ?thesis
      proof (cases "truthy field")
        case False
        with chk Inr Cons.prems
        have "export_tables env w fds ds y (str_remove ''-'' y) ts ex = (ex', w')"
          by (simp add: export_tables_Cons del: export_tables.simps)
        from Cons.IH[OF this] show ?thesis .
      next
        case True
        obtain ok w1 where e: "export_partition_to_csv env w fds t (the field)
                                 (str_remove ''-'' y) y = (ok, w1)"
          by (cases "export_partition_to_csv env w fds t (the field) (str_remove ''-'' y) y")
        with chk Inr True Cons.prems
        have r: "export_tables env w1 fds ds y (str_remove ''-'' y) ts (if ok then ex @ [t] else ex)
                   = (ex', w')"
          by (simp add: export_tables_Cons del: export_tables.simps)
        from export_partition_to_csv_effect[OF e]
        have s1: "clock_reads w1 = clock_reads w" "pg_writes w1 = pg_writes w"
                 "fst ` set (blobs w) \<subseteq> fst ` set (blobs w1)"
          and tr: "trace w1 = trace w \<or>
                   (\<exists>d. trace w1 = trace w @
                      [Upload (processing_zone @ t @ ''_'' @ str_remove ''-'' y @ ''.csv'') d])"
          by simp_all
        have t1: "\<exists>ups1. trace w1 = trace w @ ups1 \<and> (\<forall>c \<in> set ups1. staged_upload env fds y c)"
          using tr
        proof
          assume "trace w1 = trace w"
          then have "trace w1 = trace w @ [] \<and> (\<forall>c \<in> set []. staged_upload env fds y c)" by simp
          then show ?thesis ..
        next
          assume "\<exists>d. trace w1 = trace w @
                      [Upload (processing_zone @ t @ ''_'' @ str_remove ''-'' y @ ''.csv'') d]"
          then obtain d where d: "trace w1 = trace w @
                      [Upload (processing_zone @ t @ ''_'' @ str_remove ''-'' y @ ''.csv'') d]" ..
          have "staged_upload env fds y
                  (Upload (processing_zone @ t @ ''_'' @ str_remove ''-'' y @ ''.csv'') d)"
            unfolding staged_upload_def using el by blast
          with d have "trace w1 = trace w @
                      [Upload (processing_zone @ t @ ''_'' @ str_remove ''-'' y @ ''.csv'') d] \<and>
             (\<forall>c \<in> set [Upload (processing_zone @ t @ ''_'' @ str_remove ''-'' y @ ''.csv'') d].
                 staged_upload env fds y c)"
            by simp
          then show ?thesis ..
        qed
        then obtain ups1 where t1': "trace w1 = trace w @ ups1"
          "\<forall>c \<in> set ups1. staged_upload env fds y c"
          by (elim exE conjE)
        from Cons.IH[OF r] have
          s2: "clock_reads w' = clock_reads w1" "pg_writes w' = pg_writes w1"
              "fst ` set (blobs w1) \<subseteq> fst ` set (blobs w')"
          and t2e: "\<exists>ups. trace w' = trace w1 @ ups \<and> (\<forall>c \<in> set ups. staged_upload env fds y c)"
          by simp_all
        from t2e obtain ups where t2: "trace w' = trace w1 @ ups"
          "\<forall>c \<in> set ups. staged_upload env fds y c"
          by (elim exE conjE)
        from t1' t2 have "trace w' = trace w @ (ups1 @ ups) \<and>
                          (\<forall>c \<in> set (ups1 @ ups). staged_upload env fds y c)"
          by auto
        then have "\<exists>ups. trace w' = trace w @ ups \<and> (\<forall>c \<in> set ups. staged_upload env fds y c)" ..
        moreover from s1 s2 have "clock_reads w' = clock_reads w \<and> pg_writes w' = pg_writes w \<and>
          fst ` set (blobs w) \<subseteq> fst ` set (blobs w')"
          by (simp add: subset_trans [OF s1(3) s2(3)])
        ultimately show ?thesis by simp
      qed
    qed
  qed
qed

lemma staged_uploads_no_download:
  "\<forall>c \<in> set ups. staged_upload env fds y c \<Longrightarrow> downloads ups = []"
  by (induction ups) (auto simp: staged_upload_def)

lemma get_yesterday_date_effect:
  "get_yesterday_date env w = (y, w1) \<Longrightarrow>
     y = yesterday_at env (clock_reads w) \<and> clock_reads w1 = Suc (clock_reads w) \<and>
     blobs w1 = blobs w \<and> trace w1 = trace w \<and> pg_writes w1 = pg_writes w"
  by (auto simp: get_yesterday_date_def)

lemma export_all_new_partitions_to_gcs_effect:
  assumes "export_all_new_partitions_to_gcs env w = (ex, w')"
  shows "clock_reads w' \<le> Suc (clock_reads w) \<and> pg_writes w' = pg_writes w \<and>
         fst ` set (blobs w) \<subseteq> fst ` set (blobs w') \<and>
         (\<exists>ups. trace w' = trace w @ ups \<and>
            (\<forall>c \<in> set ups.
               staged_upload env (the (project_id env) @ ''.'' @ the (dataset_id env))
                 (yesterday_at env (clock_reads w)) c)) \<and>
         (ex \<noteq> [] \<longrightarrow>
            \<not> load_config_raises env \<and> \<not> gcs_client_raises env \<and> truthy (bucket_name env))"
proof -
  let ?fds = "the (project_id env) @ ''.'' @ the (dataset_id env)"
  let ?y = "yesterday_at env (clock_reads w)"
  let ?w1 = "w\<lparr>clock_reads := Suc (clock_reads w)\<rparr>"
  have trivial: "clock_reads v \<le> Suc (clock_reads w) \<and> pg_writes v = pg_writes w \<and>
         fst ` set (blobs w) \<subseteq> fst ` set (blobs v) \<and>
         (\<exists>ups. trace v = trace w @ ups \<and> (\<forall>c \<in> set ups. staged_upload env ?fds ?y c))"
    if "v = w \<or> v = ?w1" for v
  proof -
    from that have "clock_reads v \<le> Suc (clock_reads w) \<and> pg_writes v = pg_writes w \<and>
         fst ` set (blobs w) \<subseteq> fst ` set (blobs v) \<and>
         trace v = trace w @ [] \<and> (\<forall>c \<in> set []. staged_upload env ?fds ?y c)"
      by auto
    then show ?thesis by blast
  qed
  show ?thesis
  proof (cases "load_config_raises env \<or> bq_client_raises env \<or> gcs_client_raises env \<or>
                \<not> truthy (project_id env) \<or> \<not> truthy (dataset_id env) \<or>
                \<not> truthy (bucket_name env)")
    case True
    with assms have "ex = [] \<and> w' = w"
      by (auto simp: export_all_new_partitions_to_gcs_def split: if_splits)
    with trivial[of w'] show ?thesis by simp
  next
    case cfg: False
    show ?thesis
    proof (cases "list_partitioned_tables env (the (dataset_id env))")
      case (Inl e)
      with cfg assms have "ex = [] \<and> w' = ?w1"
        by (auto simp: export_all_new_partitions_to_gcs_def get_yesterday_date_def Let_def
                   split: if_splits)
      with trivial[of w'] show ?thesis by simp
    next
      case (Inr tables)
      show ?thesis
      proof (cases "tables = []")
        case True
        with Inr cfg assms have "ex = [] \<and> w' = ?w1"
          by (auto simp: export_all_new_partitions_to_gcs_def get_yesterday_date_def Let_def
                   split: if_splits)
        with trivial[of w'] show ?thesis by simp
      next
        case False
        obtain res v where
          rv: "export_tables env ?w1 ?fds (the (dataset_id env)) ?y (str_remove ''-'' ?y) tables []
                 = (res, v)"
          by (cases "export_tables env ?w1 ?fds (the (dataset_id env)) ?y (str_remove ''-'' ?y)
                       tables []")
        with False Inr cfg assms have r: "w' = v"
          by (auto simp: export_all_new_partitions_to_gcs_def get_yesterday_date_def Let_def
                   split: if_splits sum.splits)
        from export_tables_effect[OF rv] r cfg show ?thesis by simp
      qed
    qed
  qed
qed

lemma export_partitions_effect:
  assumes "export_partitions env w = (ex, w')"
  shows "clock_reads w' \<le> Suc (Suc (clock_reads w)) \<and> pg_writes w' = pg_writes w \<and>
         fst ` set (blobs w) \<subseteq> fst ` set (blobs w') \<and>
         downloads (trace w') = downloads (trace w) \<and>
         (ex \<noteq> [] \<longrightarrow>
            \<not> load_config_raises env \<and> \<not> gcs_client_raises env \<and> truthy (bucket_name env))"
proof -
  let ?w1 = "w\<lparr>clock_reads := Suc (clock_reads w)\<rparr>"
  consider (stay) "ex = []" "w' = w \<or> w' = ?w1"
    | (go) "export_all_new_partitions_to_gcs env ?w1 = (ex, w')"
    using assms
    by (auto simp: export_partitions_def get_yesterday_date_def Let_def
             split: if_splits sum.splits)
  then show ?thesis
  proof cases
    case stay
    then show ?thesis by auto
  next
    case go
    from export_all_new_partitions_to_gcs_effect[OF go]
    obtain ups where
      a: "clock_reads w' \<le> Suc (clock_reads ?w1)" "pg_writes w' = pg_writes ?w1"
         "fst ` set (blobs ?w1) \<subseteq> fst ` set (blobs w')"
         "ex \<noteq> [] \<longrightarrow>
            \<not> load_config_raises env \<and> \<not> gcs_client_raises env \<and> truthy (bucket_name env)"
      and t: "trace w' = trace ?w1 @ ups"
        "\<forall>c \<in> set ups.
               staged_upload env (the (project_id env) @ ''.'' @ the (dataset_id env))
                 (yesterday_at env (clock_reads ?w1)) c"
      by (elim conjE exE)
    from staged_uploads_no_download[OF t(2)] t(1)
    have "downloads (trace w') = downloads (trace w)"
      by (simp add: downloads_append)
    with a show ?thesis by simp
  qed
qed


lemma str_remove_prefix: "old \<noteq> [] \<Longrightarrow> str_remove old (old @ s) = str_remove old s"
  by (cases old) (simp_all add: startswith_def)

lemma downloads_record_ListBlobs [simp]:
  "downloads (trace (record_call (ListBlobs p) w)) = downloads (trace w)"
  by (simp add: record_call_def downloads_append)

lemma load_all_partitions_to_postgresql_downloads:
  assumes "\<not> load_config_raises env" "\<not> gcs_client_raises env" "\<not> pg_connect_raises env"
    and "truthy (bucket_name env)"
  shows "downloads (trace (snd (load_all_partitions_to_postgresql env w)))
           = downloads (trace w) @
             map (\<lambda>f. processing_zone @ f) (fst (get_gcs_files_in_processing_zone env w))"
proof (cases "fst (get_gcs_files_in_processing_zone env w) = []")
  case True
  with assms get_gcs_files_in_processing_zone_world[of env w] show ?thesis
    by (cases "get_gcs_files_in_processing_zone env w")
       (simp add: load_all_partitions_to_postgresql_def)
next
  case False
  from load_all_partitions_to_postgresql_pass[OF assms False] show ?thesis
    by (simp add: load_files_downloads)
qed

lemma main_unfold:
  "main env w =
     (if fst (export_partitions env w) = []
      then (No_partitions_to_export, snd (export_partitions env w))
      else (Completed (fst (fst (load_partitions env (snd (export_partitions env w)))))
                      (snd (fst (load_partitions env (snd (export_partitions env w))))),
            snd (load_partitions env (snd (export_partitions env w)))))"
  by (simp add: main_def Let_def split: prod.splits)

text \<open>
  C5, as the code has it. The orchestrator runs the load step exactly when the export
  step returned a non-empty list. When the load step then obtains its database
  connection and the listing, it downloads, in listing order, one file for every
  object under \<open>processing_zone/\<close> whose name ends in \<open>.csv\<close>: the file named by the
  object's name with every \<open>processing_zone/\<close> removed, which is the object itself when
  the rest of its name does not contain \<open>processing_zone/\<close>. The objects listed are the
  ones in the bucket after the export, and every object that was in the bucket before
  the run is among them.
\<close>

theorem main_loads_everything_staged:
  "(fst (export_partitions env w) \<noteq> [] \<longleftrightarrow> (\<exists>s fl. fst (main env w) = Completed s fl)) \<and>
   (fst (export_partitions env w) = [] \<longrightarrow>
      main env w = (No_partitions_to_export, snd (export_partitions env w))) \<and>
   (fst (export_partitions env w) \<noteq> [] \<longrightarrow>
      main env w =
        (Completed (fst (fst (load_partitions env (snd (export_partitions env w)))))
                   (snd (fst (load_partitions env (snd (export_partitions env w))))),
         snd (load_partitions env (snd (export_partitions env w))))) \<and>
   (fst (export_partitions env w) \<noteq> [] \<and> \<not> pg_connect_raises env \<and>
    \<not> list_blobs_raises env processing_zone \<longrightarrow>
      downloads (trace (snd (main env w))) =
        downloads (trace w) @
        map (\<lambda>n. processing_zone @ str_remove processing_zone n)
          (filter (\<lambda>n. endswith n ''.csv'' \<and> startswith n processing_zone)
             (map fst (blobs (snd (export_partitions env w))))) \<and>
      (\<forall>n \<in> fst ` set (blobs w).
         endswith n ''.csv'' \<and> startswith n processing_zone \<longrightarrow>
         processing_zone @ str_remove processing_zone n
           \<in> set (downloads (trace (snd (main env w)))))) \<and>
   (str_remove processing_zone f = f \<longrightarrow>
      processing_zone @ str_remove processing_zone (processing_zone @ f) = processing_zone @ f)"
proof (intro conjI impI)
  show "fst (export_partitions env w) \<noteq> [] \<longleftrightarrow> (\<exists>s fl. fst (main env w) = Completed s fl)"
    by (simp add: main_unfold)
next
  assume "fst (export_partitions env w) = []"
  then show "main env w = (No_partitions_to_export, snd (export_partitions env w))"
    by (simp add: main_unfold)
next
  assume "fst (export_partitions env w) \<noteq> []"
  then show "main env w =
        (Completed (fst (fst (load_partitions env (snd (export_partitions env w)))))
                   (snd (fst (load_partitions env (snd (export_partitions env w))))),
         snd (load_partitions env (snd (export_partitions env w))))"
    by (simp add: main_unfold)
next
  assume a: "fst (export_partitions env w) \<noteq> [] \<and> \<not> pg_connect_raises env \<and>
             \<not> list_blobs_raises env processing_zone"
  obtain ex w1 where e: "export_partitions env w = (ex, w1)"
    by (cases "export_partitions env w")
  from export_partitions_effect[OF e] a e
  have cfg: "\<not> load_config_raises env" "\<not> gcs_client_raises env" "truthy (bucket_name env)"
    and dl: "downloads (trace w1) = downloads (trace w)"
    and keep: "fst ` set (blobs w) \<subseteq> fst ` set (blobs w1)"
    by simp_all
  from a have pg: "\<not> pg_connect_raises env" and ls: "\<not> list_blobs_raises env processing_zone"
    by simp_all
  from a e have m: "snd (main env w) = snd (load_all_partitions_to_postgresql env w1)"
    by (simp add: main_unfold load_partitions_def)
  from load_all_partitions_to_postgresql_downloads[OF cfg(1,2) pg cfg(3), of w1]
    get_gcs_files_in_processing_zone_names[OF ls, of w1] m dl e
  show d: "downloads (trace (snd (main env w))) =
        downloads (trace w) @
        map (\<lambda>n. processing_zone @ str_remove processing_zone n)
          (filter (\<lambda>n. endswith n ''.csv'' \<and> startswith n processing_zone)
             (map fst (blobs (snd (export_partitions env w)))))"
    by (simp add: comp_def)
  show "\<forall>n \<in> fst ` set (blobs w).
         endswith n ''.csv'' \<and> startswith n processing_zone \<longrightarrow>
         processing_zone @ str_remove processing_zone n
           \<in> set (downloads (trace (snd (main env w))))"
  proof (intro ballI impI)
    fix n
    assume n: "n \<in> fst ` set (blobs w)"
      and p: "endswith n ''.csv'' \<and> startswith n processing_zone"
    from n keep e have "n \<in> set (map fst (blobs (snd (export_partitions env w))))"
      by auto
    with p have "n \<in> set (filter (\<lambda>n. endswith n ''.csv'' \<and> startswith n processing_zone)
                             (map fst (blobs (snd (export_partitions env w)))))"
      by simp
    then show "processing_zone @ str_remove processing_zone n
                 \<in> set (downloads (trace (snd (main env w))))"
      unfolding d by simp
  qed
next
  assume "str_remove processing_zone f = f"
  moreover have "processing_zone \<noteq> []" by (simp add: processing_zone_def)
  ultimately show "processing_zone @ str_remove processing_zone (processing_zone @ f)
                     = processing_zone @ f"
    by (simp add: str_remove_prefix)
qed


lemmas export_eval =
  export_partitions_def export_all_new_partitions_to_gcs_def get_yesterday_date_def
  list_partitioned_tables_def check_for_yesterdays_partition_def get_partitioning_field_def
  export_partition_to_csv_def upload_from_string_def df_empty_def truthy_def record_call_def
  processing_zone_def startswith_def Let_def

lemma demo_export_leftover:
  "export_partitions demo_env leftover_world =
     ([''events'', ''user_events''],
      \<lparr>blobs = [(''processing_zone/orders_20240110.csv'', simple_to_csv demo_frame),
                (''processing_zone/events_20240114.csv'', simple_to_csv demo_frame),
                (''processing_zone/user_events_20240114.csv'', simple_to_csv demo_frame)],
       pg_writes = [], clock_reads = 2,
       trace = [Upload ''processing_zone/events_20240114.csv'' (simple_to_csv demo_frame),
                Upload ''processing_zone/user_events_20240114.csv'' (simple_to_csv demo_frame)]\<rparr>)"
  by (simp add: demo_env_def leftover_world_def demo_frame_def export_eval)

lemma demo_export_empty:
  "export_partitions demo_env empty_world =
     ([''events'', ''user_events''],
      \<lparr>blobs = [(''processing_zone/events_20240114.csv'', simple_to_csv demo_frame),
                (''processing_zone/user_events_20240114.csv'', simple_to_csv demo_frame)],
       pg_writes = [], clock_reads = 2,
       trace = [Upload ''processing_zone/events_20240114.csv'' (simple_to_csv demo_frame),
                Upload ''processing_zone/user_events_20240114.csv'' (simple_to_csv demo_frame)]\<rparr>)"
  by (simp add: demo_env_def empty_world_def demo_frame_def export_eval)

lemma no_db_export_empty:
  "export_partitions no_db_env empty_world = export_partitions demo_env empty_world"
  by (simp add: no_db_env_def demo_env_def export_eval)

lemma failing_catalog_export:
  "fst (export_partitions failing_catalog_env leftover_world) = []"
  by (simp add: failing_catalog_env_def demo_env_def leftover_world_def export_eval)


theorem main_loads_everything_staged_witness:
  "fst (export_partitions demo_env leftover_world) = [''events'', ''user_events''] \<and>
   (\<exists>s fl. fst (main demo_env leftover_world) = Completed s fl) \<and>
   ''processing_zone/orders_20240110.csv'' \<in> fst ` set (blobs leftover_world) \<and>
   downloads (trace (snd (main demo_env leftover_world))) =
     [''processing_zone/orders_20240110.csv'', ''processing_zone/events_20240114.csv'',
      ''processing_zone/user_events_20240114.csv''] \<and>
   fst (export_partitions failing_catalog_env leftover_world) = [] \<and>
   main failing_catalog_env leftover_world =
     (No_partitions_to_export, snd (export_partitions failing_catalog_env leftover_world))"
proof -
  note T = main_loads_everything_staged [of demo_env leftover_world]
  note T' = main_loads_everything_staged [of failing_catalog_env leftover_world]
  have ex: "fst (export_partitions demo_env leftover_world) = [''events'', ''user_events'']"
    by (simp add: demo_export_leftover)
  have ok: "\<not> pg_connect_raises demo_env \<and> \<not> list_blobs_raises demo_env processing_zone"
    by (simp add: demo_env_def)
  have old: "''processing_zone/orders_20240110.csv'' \<in> fst ` set (blobs leftover_world)"
    by (simp add: leftover_world_def)
  from T [THEN conjunct1] ex
  have completed: "\<exists>s fl. fst (main demo_env leftover_world) = Completed s fl"
    by simp
  from ex ok
  have hyp: "fst (export_partitions demo_env leftover_world) \<noteq> [] \<and> \<not> pg_connect_raises demo_env \<and>
             \<not> list_blobs_raises demo_env processing_zone"
    by simp
  from T [THEN conjunct2, THEN conjunct2, THEN conjunct2, THEN conjunct1, THEN mp, OF hyp,
          THEN conjunct1]
  have "downloads (trace (snd (main demo_env leftover_world))) =
        downloads (trace leftover_world) @
        map (\<lambda>n. processing_zone @ str_remove processing_zone n)
          (filter (\<lambda>n. endswith n ''.csv'' \<and> startswith n processing_zone)
             (map fst (blobs (snd (export_partitions demo_env leftover_world)))))" .
  then have dl: "downloads (trace (snd (main demo_env leftover_world))) =
     [''processing_zone/orders_20240110.csv'', ''processing_zone/events_20240114.csv'',
      ''processing_zone/user_events_20240114.csv'']"
    by (simp add: demo_export_leftover)
       (simp add: leftover_world_def processing_zone_def startswith_def endswith_def)
  have none: "fst (export_partitions failing_catalog_env leftover_world) = []"
    by (rule failing_catalog_export)
  from T' [THEN conjunct2, THEN conjunct1, THEN mp, OF none]
  have skip: "main failing_catalog_env leftover_world =
     (No_partitions_to_export, snd (export_partitions failing_catalog_env leftover_world))" .
  from ex completed old dl none skip show ?thesis by blast
qed

text \<open>
  C5, as stated, fails when the load step cannot connect to PostgreSQL: the export
  step returned two tables, the load step ran, and it attempted none of the two staged
  files.
\<close>

theorem main_loads_everything_staged_counterexample:
  "fst (export_partitions no_db_env empty_world) = [''events'', ''user_events''] \<and>
   fst (main no_db_env empty_world) = Completed [] [] \<and>
   map fst (blobs (snd (main no_db_env empty_world))) =
     [''processing_zone/events_20240114.csv'', ''processing_zone/user_events_20240114.csv''] \<and>
   downloads (trace (snd (main no_db_env empty_world))) = []"
proof -
  have "pg_connect_raises no_db_env \<and> \<not> load_config_raises no_db_env \<and>
        \<not> gcs_client_raises no_db_env"
    by (simp add: no_db_env_def demo_env_def)
  then have "load_partitions no_db_env v = (([], []), v)" for v
    by (simp add: load_partitions_def load_all_partitions_to_postgresql_def)
  then show ?thesis
    by (simp add: main_unfold no_db_export_empty demo_export_empty)
qed

section \<open>The clock\<close>

text \<open>Nothing but \<open>get_yesterday_date\<close> looks at the clock.\<close>

lemma partitioned_tables_loop_clock [simp]:
  "partitioned_tables_loop (env\<lparr>yesterday_at := c\<rparr>) ds ts acc = partitioned_tables_loop env ds ts acc"
  by (induction ts arbitrary: acc) (simp_all split: sum.splits exn.splits)

lemma list_partitioned_tables_clock [simp]:
  "list_partitioned_tables (env\<lparr>yesterday_at := c\<rparr>) ds = list_partitioned_tables env ds"
  by (simp add: list_partitioned_tables_def cong: sum.case_cong)

lemma check_for_yesterdays_partition_clock [simp]:
  "check_for_yesterdays_partition (env\<lparr>yesterday_at := c\<rparr>) t fds y
     = check_for_yesterdays_partition env t fds y"
  by (simp add: check_for_yesterdays_partition_def)

lemma get_partitioning_field_clock [simp]:
  "get_partitioning_field (env\<lparr>yesterday_at := c\<rparr>) t ds = get_partitioning_field env t ds"
  by (simp add: get_partitioning_field_def)

lemma upload_from_string_clock [simp]:
  "upload_from_string (env\<lparr>yesterday_at := c\<rparr>) w n d = upload_from_string env w n d"
  by (simp add: upload_from_string_def)

lemma export_partition_to_csv_clock [simp]:
  "export_partition_to_csv (env\<lparr>yesterday_at := c\<rparr>) w ds t field pid y
     = export_partition_to_csv env w ds t field pid y"
  by (simp add: export_partition_to_csv_def cong: sum.case_cong if_cong)

lemma export_tables_clock [simp]:
  "export_tables (env\<lparr>yesterday_at := c\<rparr>) w fds ds y pid ts ex = export_tables env w fds ds y pid ts ex"
proof (induction ts arbitrary: w ex)
  case Nil
  show ?case by simp
next
  case (Cons t ts)
  show ?case
    by (simp add: export_tables_Cons Cons.IH del: export_tables.simps
             cong: sum.case_cong prod.case_cong if_cong)
qed













end
